theory Spec2Isabelle
  imports Complex_Main "HOL-Library.Word" "HOL-Library.Char_ord"
begin

unbundle bit_operations_syntax

section \<open>Data model\<close>

text \<open>
  The verification service is written in Go. Its numbers are modelled as follows:
  \<^item> \<open>float32\<close> and \<open>float64\<close> are idealised as \<open>real\<close>: no rounding, no NaN, no
    infinities. A statement below about a score or a similarity is a statement about
    this exact arithmetic, except where the functions carry the suffix \<open>binary64\<close>:
    those round every operation as \<open>float64\<close> does;
  \<^item> \<open>uint32\<close> colour channels and \<open>uint8\<close> pixel bytes are machine words, so the
    wrap-around and truncation of the frame synthesis are those of the code;
  \<^item> \<open>int\<close> coordinates and the \<open>int64\<close> file size are unbounded integers (no coordinate
    or size of the service comes near the 64-bit range).
\<close>

type_synonym float32 = real
type_synonym float64 = real
type_synonym byte = "8 word"
type_synonym uint8 = "8 word"
type_synonym uint32 = "32 word"

text \<open>
  Go errors are values. Each \<open>fmt.Errorf\<close> site of the service and of the handler is a
  constructor; an error wrapped with \<open>%w\<close> keeps the wrapped error as its argument.
  \<open>ErrLibrary\<close> stands for an error returned by library code (scrypt, AES, the random
  source, JSON, the file system, the face recogniser). \<open>ErrNilDereference\<close> and
  \<open>ErrIndexOutOfRange\<close> are the two run-time panics a method could raise: reading
  through a nil pointer and indexing an empty slice.
\<close>

datatype error =
    ErrNoFramesExtracted
  | ErrProcessingTimeout
  | ErrFrameExtractionTimeout
  | ErrFaceVerificationFailed float64
  | ErrFaceDetectionFailed error
  | ErrNoFacesDetected
  | ErrFaceDescriptorFailed error
  | ErrCiphertextTooShort
  | ErrLibrary string
  | ErrVideoTooLarge int
  | ErrVideoTooSmall int
  | ErrInvalidFileType string
  | ErrOpenFailed error
  | ErrReadFailed error
  | ErrNilDereference
  | ErrIndexOutOfRange

text \<open>
  The text that \<open>VerifyVideo\<close> writes into \<open>result.Error\<close>: the empty string, or one of
  its six messages (three of them formatted around the causing error).
\<close>

datatype error_text =
    NoErrorText
  | TextNoFramesExtracted
  | TextLivenessDetectionFailed error
  | TextFaceVectorGenerationFailed error
  | TextProcessingTimeout
  | TextFailedToExtractFrames error
  | TextFrameExtractionTimeout

record Config =
  LivenessThreshold :: float64
  SimilarityThreshold :: float64
  EncryptionKey :: string
  StoragePath :: string

record VerificationRequest =
  VideoData :: "byte list"
  UserID :: string
  SessionID :: string

text \<open>
  \<open>VerificationResult.UserID\<close> is the field \<open>ResultUserID\<close> here, \<open>FaceVector.UserID\<close> is
  \<open>VectorUserID\<close> and \<open>LivenessResult.Confidence\<close> is \<open>LivenessConfidence\<close>: field names of
  different records must differ. Times are clock readings in nanoseconds.
\<close>

record VerificationResult =
  VerificationID :: string
  ResultUserID :: string
  Verified :: bool
  Confidence :: float64
  LivenessScore :: float64
  ProcessingTime :: float64
  Timestamp :: nat
  Error :: error_text

record FaceVector =
  VectorUserID :: string
  Vector :: "float32 list"
  CreatedAt :: nat
  Version :: string

record LivenessResult =
  IsLive :: bool
  LivenessConfidence :: float64
  Method :: string
  Score :: float64

text \<open>The in-memory store \<open>faceVectors map[string][]models.FaceVector\<close>.\<close>

type_synonym store = "string \<rightharpoonup> FaceVector list"

section \<open>Images\<close>

text \<open>
  \<open>image.Rectangle\<close> with the methods the service calls, and \<open>image.Image\<close> as its two
  methods: \<open>Bounds()\<close> and \<open>At(x, y)\<close>, the colour given by the four \<open>uint32\<close> values of
  its \<open>RGBA()\<close>.
\<close>

record Rectangle =
  MinX :: int
  MinY :: int
  MaxX :: int
  MaxY :: int

definition Rect :: "int \<Rightarrow> int \<Rightarrow> int \<Rightarrow> int \<Rightarrow> Rectangle" where
  "Rect x0 y0 x1 y1 =
     \<lparr>MinX = (if x0 > x1 then x1 else x0), MinY = (if y0 > y1 then y1 else y0),
      MaxX = (if x0 > x1 then x0 else x1), MaxY = (if y0 > y1 then y0 else y1)\<rparr>"

definition Dx :: "Rectangle \<Rightarrow> int" where
  "Dx r = MaxX r - MinX r"

definition Dy :: "Rectangle \<Rightarrow> int" where
  "Dy r = MaxY r - MinY r"

definition Empty :: "Rectangle \<Rightarrow> bool" where
  "Empty r = (MinX r \<ge> MaxX r \<or> MinY r \<ge> MaxY r)"

definition rect_Eq :: "Rectangle \<Rightarrow> Rectangle \<Rightarrow> bool" where
  "rect_Eq r s = (r = s \<or> (Empty r \<and> Empty s))"

definition point_In :: "int \<Rightarrow> int \<Rightarrow> Rectangle \<Rightarrow> bool" where
  "point_In x y r = (MinX r \<le> x \<and> x < MaxX r \<and> MinY r \<le> y \<and> y < MaxY r)"

type_synonym color = "uint32 \<times> uint32 \<times> uint32 \<times> uint32"

record Image =
  Bounds :: Rectangle
  At :: "int \<times> int \<Rightarrow> color"

definition f64 :: "uint32 \<Rightarrow> float64" where
  "f64 c = real (unat c)"

text \<open>
  \<open>color.RGBA{R, G, B, A}.RGBA()\<close>: each 8-bit channel \<open>c\<close> becomes \<open>c | c << 8\<close>.
\<close>

definition widen :: "uint8 \<Rightarrow> uint32" where
  "widen c = (let r = ucast c in r OR push_bit 8 r)"

definition color_RGBA :: "uint8 \<Rightarrow> uint8 \<Rightarrow> uint8 \<Rightarrow> uint8 \<Rightarrow> color" where
  "color_RGBA R G B A = (widen R, widen G, widen B, widen A)"

text \<open>
  \<open>image.NewRGBA\<close> gives a zeroed picture; \<open>SetRGBA\<close> and \<open>Set\<close> write one pixel and do
  nothing outside the bounds. \<open>Set\<close> converts the colour with \<open>color.RGBAModel\<close>, which
  keeps the high byte of every channel.
\<close>

definition NewRGBA :: "Rectangle \<Rightarrow> Image" where
  "NewRGBA r = \<lparr>Bounds = r, At = (\<lambda>p. (0, 0, 0, 0))\<rparr>"

definition SetRGBA :: "Image \<Rightarrow> int \<Rightarrow> int \<Rightarrow> color \<Rightarrow> Image" where
  "SetRGBA img x y c =
     (if point_In x y (Bounds img) then img\<lparr>At := (At img)((x, y) := c)\<rparr> else img)"

definition high_byte :: "uint32 \<Rightarrow> uint8" where
  "high_byte c = ucast (drop_bit 8 c)"

definition Set_color :: "Image \<Rightarrow> int \<Rightarrow> int \<Rightarrow> color \<Rightarrow> Image" where
  "Set_color img x y c =
     (case c of (r, g, b, a) \<Rightarrow>
        SetRGBA img x y (color_RGBA (high_byte r) (high_byte g) (high_byte b) (high_byte a)))"

text \<open>
  The counting loop \<open>for v := lo; v < hi; v += st\<close> visits \<open>steps lo hi st\<close> in order.
\<close>

function steps :: "int \<Rightarrow> int \<Rightarrow> int \<Rightarrow> int list" where
  "steps lo hi st = (if lo < hi \<and> 0 < st then lo # steps (lo + st) hi st else [])"
  by pat_completeness auto
termination
  by (relation "measure (\<lambda>(lo, hi, st). nat (hi - lo))") auto

declare steps.simps [simp del]

section \<open>Frame source\<close>

text \<open>
  \<open>extractFramesFromVideo\<close>. \<open>image.Decode\<close> is library code: it is the parameter
  \<open>decode\<close>, which yields the picture and its format name, or \<open>None\<close> when it returns an
  error. The decoders of the standard library return pictures with well-formed bounds
  (\<open>Min\<close> not beyond \<open>Max\<close>), for which \<open>image.NewRGBA\<close> allocates the copy; that
  contract of the library is taken as given, so \<open>NewRGBA\<close> is total here.
\<close>

text \<open>
  The placeholder of the fallback path: a picture of 640 by 480 pixels filled with a
  gradient by two nested loops.
\<close>

definition placeholder :: Image where
  "placeholder =
     fold (\<lambda>y img.
        fold (\<lambda>x img.
           SetRGBA img x y
             (color_RGBA (word_of_int ((x * 255) div 640)) (word_of_int ((y * 255) div 480))
                128 255))
          (steps 0 640 1) img)
       (steps 0 480 1) (NewRGBA (Rect 0 0 640 480))"

text \<open>
  The body of \<open>for i := 1; i < 5; i++\<close>: a new picture with the bounds of the first
  one, written pixel by pixel for \<open>x\<close> below \<open>Dx\<close> and \<open>y\<close> below \<open>Dy\<close>. Each colour
  channel gets \<open>(c + uint32(noise)) % 65535\<close> and is cut to its high byte.
\<close>

definition add_noise :: "uint32 \<Rightarrow> int \<Rightarrow> uint32" where
  "add_noise c noise = (c + word_of_int noise) mod 65535"

definition frameCopy :: "Image \<Rightarrow> int \<Rightarrow> Image" where
  "frameCopy img i =
     fold (\<lambda>y fc.
        fold (\<lambda>x fc.
           (case At img (x, y) of (r, g, b, a) \<Rightarrow>
              (let noise = i * 2;
                   r = add_noise r noise;
                   g = add_noise g noise;
                   b = add_noise b noise
               in SetRGBA fc x y
                    (color_RGBA (high_byte r) (high_byte g) (high_byte b) (high_byte a)))))
          (steps 0 (Dx (Bounds img)) 1) fc)
       (steps 0 (Dy (Bounds img)) 1) (NewRGBA (Bounds img))"

definition extractFramesFromVideo ::
  "(byte list \<Rightarrow> (Image \<times> string) option) \<Rightarrow> byte list \<Rightarrow> error + Image list" where
  "extractFramesFromVideo decode videoData =
     (let img = (case decode videoData of None \<Rightarrow> placeholder | Some (img, format) \<Rightarrow> img);
          frames = fold (\<lambda>i frames. frames @ [frameCopy img i]) (steps 1 5 1) [img]
      in Inr frames)"

section \<open>Liveness detector\<close>

text \<open>
  Motion: the mean absolute difference of the colour channels of two frames over every
  fourth pixel of every fourth row, and over the consecutive pairs of frames.
\<close>

definition calculateFrameMotion :: "Image \<Rightarrow> Image \<Rightarrow> float64" where
  "calculateFrameMotion img1 img2 =
     (let bounds = Bounds img1 in
      if \<not> rect_Eq bounds (Bounds img2) then 0
      else
        (let samples = [(x, y). y \<leftarrow> steps (MinY bounds) (MaxY bounds) 4,
                                 x \<leftarrow> steps (MinX bounds) (MaxX bounds) 4];
             totalDiff = sum_list (map (\<lambda>p.
                (case At img1 p of (r1, g1, b1, a1) \<Rightarrow>
                 case At img2 p of (r2, g2, b2, a2) \<Rightarrow>
                   \<bar>f64 r1 - f64 r2\<bar> + \<bar>f64 g1 - f64 g2\<bar> + \<bar>f64 b1 - f64 b2\<bar>)) samples);
             pixelCount = length samples
         in if pixelCount = 0 then 0 else totalDiff / real pixelCount / 65535))"

definition calculateMotionScore :: "Image list \<Rightarrow> float64" where
  "calculateMotionScore frames =
     (if length frames < 2 then 0
      else
        (let motions = map (\<lambda>i. calculateFrameMotion (frames ! (i - 1)) (frames ! i))
                         [1..<length frames];
             totalMotion = sum_list motions;
             frameCount = length motions
         in if frameCount = 0 then 0
            else (let averageMotion = totalMotion / real frameCount
                  in min (averageMotion * 10) 1)))"

text \<open>
  Texture: for every second pixel of the interior, the mean squared difference to its
  eight neighbours; the consistency is one minus the scaled variance of the per-frame
  means.
\<close>

definition neighbours :: "(int \<times> int) list" where
  "neighbours = [(dx, dy). dy \<leftarrow> [-1, 0, 1], dx \<leftarrow> [-1, 0, 1], \<not> (dx = 0 \<and> dy = 0)]"

definition local_variance :: "Image \<Rightarrow> int \<Rightarrow> int \<Rightarrow> float64" where
  "local_variance img x y =
     (case At img (x, y) of (centerR, centerG, centerB, centerA) \<Rightarrow>
        sum_list (map (\<lambda>(dx, dy).
           (case At img (x + dx, y + dy) of (nr, ng, nb, na) \<Rightarrow>
              (f64 centerR - f64 nr)\<^sup>2 + (f64 centerG - f64 ng)\<^sup>2 + (f64 centerB - f64 nb)\<^sup>2))
          neighbours))"

definition calculateFrameTexture :: "Image \<Rightarrow> float64" where
  "calculateFrameTexture img =
     (let bounds = Bounds img;
          neighborCount = length neighbours;
          centres = filter (\<lambda>p. neighborCount > 0)
                      [(x, y). y \<leftarrow> steps (MinY bounds + 1) (MaxY bounds - 1) 2,
                               x \<leftarrow> steps (MinX bounds + 1) (MaxX bounds - 1) 2];
          totalVariance = sum_list (map (\<lambda>(x, y). local_variance img x y / real neighborCount)
                                      centres);
          pixelCount = length centres
      in if pixelCount = 0 then 0 else totalVariance / real pixelCount / 10000000000)"

definition calculateTextureConsistency :: "Image list \<Rightarrow> float64" where
  "calculateTextureConsistency frames =
     (if length frames = 0 then 0
      else
        (let textureScores = map calculateFrameTexture frames;
             mean = sum_list textureScores / real (length textureScores);
             variance = sum_list (map (\<lambda>score. (score - mean)\<^sup>2) textureScores)
                          / real (length textureScores)
         in 1 - min (variance * 100) 1))"

text \<open>
  Colour: the mean colour of every frame over the sampling grid of the motion signal; the
  consistency is one minus the scaled variance of those means.
\<close>

definition calculateAverageColor :: "Image \<Rightarrow> float64 \<times> float64 \<times> float64" where
  "calculateAverageColor img =
     (let bounds = Bounds img;
          samples = [(x, y). y \<leftarrow> steps (MinY bounds) (MaxY bounds) 4,
                              x \<leftarrow> steps (MinX bounds) (MaxX bounds) 4];
          totalR = sum_list (map (\<lambda>p. case At img p of (r, g, b, a) \<Rightarrow> f64 r / 65535) samples);
          totalG = sum_list (map (\<lambda>p. case At img p of (r, g, b, a) \<Rightarrow> f64 g / 65535) samples);
          totalB = sum_list (map (\<lambda>p. case At img p of (r, g, b, a) \<Rightarrow> f64 b / 65535) samples);
          pixelCount = length samples
      in if pixelCount = 0 then (0, 0, 0)
         else (totalR / real pixelCount, totalG / real pixelCount, totalB / real pixelCount))"

definition calculateColorConsistency :: "Image list \<Rightarrow> float64" where
  "calculateColorConsistency frames =
     (if length frames = 0 then 0
      else
        (let frameColors = map calculateAverageColor frames;
             n = real (length frameColors);
             meanColor0 = sum_list (map (\<lambda>(c0, c1, c2). c0) frameColors) / n;
             meanColor1 = sum_list (map (\<lambda>(c0, c1, c2). c1) frameColors) / n;
             meanColor2 = sum_list (map (\<lambda>(c0, c1, c2). c2) frameColors) / n;
             variance = sum_list (map (\<lambda>(c0, c1, c2).
                           (c0 - meanColor0)\<^sup>2 + (c1 - meanColor1)\<^sup>2 + (c2 - meanColor2)\<^sup>2)
                          frameColors) / n
         in 1 - min (variance * 10) 1))"

definition detectLiveness :: "Config \<Rightarrow> Image list \<Rightarrow> error + LivenessResult" where
  "detectLiveness config frames =
     (if length frames < 2
      then Inr \<lparr>IsLive = False, LivenessConfidence = 0, Method = ''motion_texture_analysis'',
                Score = 0\<rparr>
      else
        (let motionScore = calculateMotionScore frames;
             textureScore = calculateTextureConsistency frames;
             colorScore = calculateColorConsistency frames;
             totalScore = (motionScore * 0.4) + (textureScore * 0.4) + (colorScore * 0.2);
             isLive = (totalScore \<ge> LivenessThreshold config);
             confidence = min totalScore 1
         in Inr \<lparr>IsLive = isLive, LivenessConfidence = confidence,
                  Method = ''motion_texture_analysis'', Score = totalScore\<rparr>))"

section \<open>Similarity matcher\<close>

text \<open>
  The loop of \<open>cosineSimilarity\<close> runs over the indices of \<open>a\<close>, after the lengths were
  found equal, and accumulates \<open>dotProduct\<close>, \<open>normA\<close> and \<open>normB\<close>.
\<close>

fun cosine_loop ::
  "float32 list \<Rightarrow> float32 list \<Rightarrow> float64 \<times> float64 \<times> float64 \<Rightarrow> float64 \<times> float64 \<times> float64"
  where
  "cosine_loop (x # xs) (y # ys) (dotProduct, normA, normB) =
     cosine_loop xs ys (dotProduct + x * y, normA + x * x, normB + y * y)"
| "cosine_loop xs ys acc = acc"

definition cosineSimilarity :: "float32 list \<Rightarrow> float32 list \<Rightarrow> float64" where
  "cosineSimilarity a b =
     (if length a \<noteq> length b then 0
      else
        (case cosine_loop a b (0, 0, 0) of (dotProduct, normA, normB) \<Rightarrow>
           if normA = 0 \<or> normB = 0 then 0
           else dotProduct / (sqrt normA * sqrt normB)))"

fun similarity_loop :: "float32 list \<Rightarrow> FaceVector list \<Rightarrow> float64 \<Rightarrow> float64" where
  "similarity_loop newVector [] maxSimilarity = maxSimilarity"
| "similarity_loop newVector (storedVector # userVectors) maxSimilarity =
     (let similarity = cosineSimilarity newVector (Vector storedVector)
      in similarity_loop newVector userVectors
           (if similarity > maxSimilarity then similarity else maxSimilarity))"

definition checkForDuplicates :: "store \<Rightarrow> string \<Rightarrow> float32 list \<Rightarrow> error + float64" where
  "checkForDuplicates faceVectors userID newVector =
     (case faceVectors userID of
        None \<Rightarrow> Inr 0
      | Some userVectors \<Rightarrow>
          if length userVectors = 0 then Inr 0
          else Inr (similarity_loop newVector userVectors 0))"

section \<open>Binary64 rounding\<close>

text \<open>
  The similarity is computed in \<open>float64\<close>, and one property of it depends on the
  rounding: whether it can exceed 1. For that, the same three functions are given once
  more with every \<open>float64\<close> operation (sum, product, quotient, \<open>math.Sqrt\<close>) rounded to
  the nearest binary64 value, ties to even. \<open>binary64 x\<close> has 53 significant bits: with
  \<open>e\<close> the binary exponent of \<open>x\<close>, it is the multiple of \<open>2 ^ (e - 52)\<close> nearest to \<open>x\<close>.
  This is the rounding of IEEE 754 for magnitudes in the normal range (no overflow, no
  subnormal numbers, no NaN); the conversion \<open>float64(a[i])\<close> of a \<open>float32\<close> is exact.
\<close>

definition round_even :: "real \<Rightarrow> int" where
  "round_even r =
     (let f = \<lfloor>r\<rfloor>; d = r - of_int f
      in if d < 1 / 2 then f else if d > 1 / 2 then f + 1 else if even f then f else f + 1)"

definition pow2 :: "int \<Rightarrow> real" where
  "pow2 e = (if 0 \<le> e then 2 ^ nat e else 1 / 2 ^ nat (- e))"

definition binary64 :: "real \<Rightarrow> real" where
  "binary64 x =
     (if x = 0 then 0
      else (let ulp = pow2 (\<lfloor>log 2 \<bar>x\<bar>\<rfloor> - 52)
            in of_int (round_even (x / ulp)) * ulp))"

fun cosine_loop_binary64 ::
  "float32 list \<Rightarrow> float32 list \<Rightarrow> float64 \<times> float64 \<times> float64 \<Rightarrow> float64 \<times> float64 \<times> float64"
  where
  "cosine_loop_binary64 (x # xs) (y # ys) (dotProduct, normA, normB) =
     cosine_loop_binary64 xs ys
       (binary64 (dotProduct + binary64 (x * y)), binary64 (normA + binary64 (x * x)),
        binary64 (normB + binary64 (y * y)))"
| "cosine_loop_binary64 xs ys acc = acc"

definition cosineSimilarity_binary64 :: "float32 list \<Rightarrow> float32 list \<Rightarrow> float64" where
  "cosineSimilarity_binary64 a b =
     (if length a \<noteq> length b then 0
      else
        (case cosine_loop_binary64 a b (0, 0, 0) of (dotProduct, normA, normB) \<Rightarrow>
           if normA = 0 \<or> normB = 0 then 0
           else binary64
                  (dotProduct / binary64 (binary64 (sqrt normA) * binary64 (sqrt normB)))))"

fun similarity_loop_binary64 :: "float32 list \<Rightarrow> FaceVector list \<Rightarrow> float64 \<Rightarrow> float64" where
  "similarity_loop_binary64 newVector [] maxSimilarity = maxSimilarity"
| "similarity_loop_binary64 newVector (storedVector # userVectors) maxSimilarity =
     (let similarity = cosineSimilarity_binary64 newVector (Vector storedVector)
      in similarity_loop_binary64 newVector userVectors
           (if similarity > maxSimilarity then similarity else maxSimilarity))"

definition checkForDuplicates_binary64 ::
  "store \<Rightarrow> string \<Rightarrow> float32 list \<Rightarrow> error + float64" where
  "checkForDuplicates_binary64 faceVectors userID newVector =
     (case faceVectors userID of
        None \<Rightarrow> Inr 0
      | Some userVectors \<Rightarrow>
          if length userVectors = 0 then Inr 0
          else Inr (similarity_loop_binary64 newVector userVectors 0))"

section \<open>Embedding generator\<close>

text \<open>
  The face recogniser is a library: its two calls are parameters. Each yields its value or
  the error it returned. The pixel buffer \<open>rgba.Pix\<close> is passed as the picture it holds.
\<close>

record Face =
  FaceRectangle :: Rectangle

record Recognizer =
  RecognizeRGBA :: "Image \<Rightarrow> int \<Rightarrow> int \<Rightarrow> int \<Rightarrow> error + Face list"
  GetDescriptor :: "Image \<Rightarrow> int \<Rightarrow> int \<Rightarrow> int \<Rightarrow> Rectangle \<Rightarrow> error + float32 list"

definition generateFaceVector :: "Recognizer \<Rightarrow> Image \<Rightarrow> error + float32 list" where
  "generateFaceVector faceRecognizer img =
     (let bounds = Bounds img;
          width = Dx bounds;
          height = Dy bounds;
          rgba = fold (\<lambda>y rgba.
                    fold (\<lambda>x rgba. Set_color rgba x y (At img (x, y))) (steps 0 width 1) rgba)
                   (steps 0 height 1) (NewRGBA bounds)
      in case RecognizeRGBA faceRecognizer rgba width height (width * 4) of
           Inl err \<Rightarrow> Inl (ErrFaceDetectionFailed err)
         | Inr faces \<Rightarrow>
             (case faces of
                [] \<Rightarrow> Inl ErrNoFacesDetected
              | face # others \<Rightarrow>
                  (case GetDescriptor faceRecognizer rgba width height (width * 4)
                          (FaceRectangle face) of
                     Inl err \<Rightarrow> Inl (ErrFaceDescriptorFailed err)
                   | Inr descriptor \<Rightarrow> Inr descriptor)))"

section \<open>Vector store encryption\<close>

text \<open>
  Library code of the store: \<open>scrypt.Key\<close>, the AES-GCM \<open>Seal\<close> and \<open>Open\<close>,
  \<open>json.Marshal\<close>, \<open>filepath.Join\<close> and \<open>os.WriteFile\<close>, together with
  \<open>image.Decode\<close> of the frame source. \<open>gcm_Seal\<close> gives what \<open>Seal\<close> appends to its
  destination (the ciphertext and its tag); \<open>gcm_Open\<close> gives the plaintext or the
  authentication error.
\<close>

record Library =
  image_Decode :: "byte list \<Rightarrow> (Image \<times> string) option"
  scrypt_Key :: "byte list \<Rightarrow> byte list \<Rightarrow> nat \<Rightarrow> nat \<Rightarrow> nat \<Rightarrow> nat \<Rightarrow> error + byte list"
  gcm_Seal :: "byte list \<Rightarrow> byte list \<Rightarrow> byte list \<Rightarrow> byte list \<Rightarrow> byte list"
  gcm_Open :: "byte list \<Rightarrow> byte list \<Rightarrow> byte list \<Rightarrow> byte list \<Rightarrow> error + byte list"
  json_Marshal :: "store \<Rightarrow> error + byte list"
  filepath_Join :: "string \<Rightarrow> string \<Rightarrow> string"
  os_WriteFile :: "string \<Rightarrow> byte list \<Rightarrow> error option"

definition bytes_of :: "string \<Rightarrow> byte list" where
  "bytes_of s = map (\<lambda>c. word_of_nat (of_char c)) s"

definition deriveKey :: "Library \<Rightarrow> string \<Rightarrow> error + byte list" where
  "deriveKey lib password =
     (let salt = bytes_of ''connect-hub-face-verification-salt''
      in scrypt_Key lib (bytes_of password) salt 32768 8 1 32)"

text \<open>
  \<open>aes.NewCipher\<close> accepts keys of 16, 24 or 32 bytes; \<open>cipher.NewGCM\<close> accepts every AES
  block and its nonces are 12 bytes long. The cipher is represented by its key.
  \<open>io.ReadFull\<close> fills the buffer or fails; the random source is the stream \<open>entropy\<close>.
\<close>

definition aes_NewCipher :: "byte list \<Rightarrow> error + byte list" where
  "aes_NewCipher key =
     (if length key = 16 \<or> length key = 24 \<or> length key = 32 then Inr key
      else Inl (ErrLibrary ''crypto/aes: invalid key size''))"

definition cipher_NewGCM :: "byte list \<Rightarrow> error + byte list" where
  "cipher_NewGCM block = Inr block"

definition NonceSize :: nat where
  "NonceSize = 12"

definition io_ReadFull :: "byte list \<Rightarrow> nat \<Rightarrow> error + byte list" where
  "io_ReadFull src n =
     (if n \<le> length src then Inr (take n src)
      else if src = [] then Inl (ErrLibrary ''EOF'')
      else Inl (ErrLibrary ''unexpected EOF''))"

definition Seal ::
  "Library \<Rightarrow> byte list \<Rightarrow> byte list \<Rightarrow> byte list \<Rightarrow> byte list \<Rightarrow> byte list \<Rightarrow> byte list" where
  "Seal lib gcm dst nonce plaintext additionalData =
     dst @ gcm_Seal lib gcm nonce plaintext additionalData"

definition encryptData :: "Library \<Rightarrow> Config \<Rightarrow> byte list \<Rightarrow> byte list \<Rightarrow> error + byte list" where
  "encryptData lib config entropy data =
     (case deriveKey lib (EncryptionKey config) of
        Inl err \<Rightarrow> Inl err
      | Inr key \<Rightarrow>
     (case aes_NewCipher key of
        Inl err \<Rightarrow> Inl err
      | Inr block \<Rightarrow>
     (case cipher_NewGCM block of
        Inl err \<Rightarrow> Inl err
      | Inr gcm \<Rightarrow>
     (case io_ReadFull entropy NonceSize of
        Inl err \<Rightarrow> Inl err
      | Inr nonce \<Rightarrow> Inr (Seal lib gcm nonce nonce data [])))))"

definition decryptData :: "Library \<Rightarrow> Config \<Rightarrow> byte list \<Rightarrow> error + byte list" where
  "decryptData lib config data =
     (case deriveKey lib (EncryptionKey config) of
        Inl err \<Rightarrow> Inl err
      | Inr key \<Rightarrow>
     (case aes_NewCipher key of
        Inl err \<Rightarrow> Inl err
      | Inr block \<Rightarrow>
     (case cipher_NewGCM block of
        Inl err \<Rightarrow> Inl err
      | Inr gcm \<Rightarrow>
     (let nonceSize = NonceSize in
      if length data < nonceSize then Inl ErrCiphertextTooShort
      else
        (let nonce = take nonceSize data;
             ciphertext = drop nonceSize data
         in case gcm_Open lib gcm nonce ciphertext [] of
              Inl err \<Rightarrow> Inl err
            | Inr plaintext \<Rightarrow> Inr plaintext)))))"

section \<open>Orchestrator\<close>

text \<open>
  The service value: the fields of \<open>FaceVerificationService\<close> that its methods read (the
  logger and the lock are left out; every method here runs alone).
\<close>

record Service =
  config :: Config
  faceRecognizer :: Recognizer
  faceVectors :: store

text \<open>
  What one call does not decide by itself is its \<open>Run\<close>: the clock readings, whether the
  frames arrive before the two-second timer (\<open>frameWait\<close>), in which order the two
  analyses and the one-second timer are received by the loop of two \<open>select\<close>s
  (\<open>joinWait\<close>), and for a registration the bytes of the random source.
\<close>

datatype frame_wait = FramesArrive | FrameWaitTimeout

datatype join_wait =
    LivenessThenVector
  | VectorThenLiveness
  | LivenessThenTimeout
  | VectorThenTimeout
  | TimeoutFirst

datatype event = LivenessDone | VectorDone | TimeoutFired

fun events :: "join_wait \<Rightarrow> event list" where
  "events LivenessThenVector = [LivenessDone, VectorDone]"
| "events VectorThenLiveness = [VectorDone, LivenessDone]"
| "events LivenessThenTimeout = [LivenessDone, TimeoutFired]"
| "events VectorThenTimeout = [VectorDone, TimeoutFired]"
| "events TimeoutFirst = [TimeoutFired]"

record Run =
  startTime :: nat
  idTime :: nat
  elapsed :: float64
  frameWait :: frame_wait
  joinWait :: join_wait
  createdAt :: nat
  entropy :: "byte list"

fun fmt_d :: "nat \<Rightarrow> string" where
  "fmt_d n =
     (if n < 10 then [char_of (48 + n)] else fmt_d (n div 10) @ [char_of (48 + n mod 10)])"

declare fmt_d.simps [simp del]

text \<open>
  The loop \<open>for i := 0; i < 2; i++ { select { ... } }\<close>: each event received either
  stores a value, or returns with the text for \<open>result.Error\<close> and the error. A goroutine
  that failed sends on its error channel, so its event delivers the error.
\<close>

fun select_loop ::
  "event list \<Rightarrow> error + LivenessResult \<Rightarrow> error + float32 list \<Rightarrow>
   LivenessResult option \<times> float32 list option \<Rightarrow>
   (error_text \<times> error) + (LivenessResult option \<times> float32 list option)" where
  "select_loop [] liveness vector acc = Inr acc"
| "select_loop (LivenessDone # es) liveness vector (livenessResult, faceVector) =
     (case liveness of
        Inl err \<Rightarrow> Inl (TextLivenessDetectionFailed err, err)
      | Inr r \<Rightarrow> select_loop es liveness vector (Some r, faceVector))"
| "select_loop (VectorDone # es) liveness vector (livenessResult, faceVector) =
     (case vector of
        Inl err \<Rightarrow> Inl (TextFaceVectorGenerationFailed err, err)
      | Inr v \<Rightarrow> select_loop es liveness vector (livenessResult, Some v))"
| "select_loop (TimeoutFired # es) liveness vector acc =
     Inl (TextProcessingTimeout, ErrProcessingTimeout)"

definition VerifyVideo ::
  "Library \<Rightarrow> Service \<Rightarrow> Run \<Rightarrow> VerificationRequest \<Rightarrow> VerificationResult \<times> error option" where
  "VerifyVideo lib s run req =
     (let result = \<lparr>VerificationID = ''ver_'' @ fmt_d (idTime run), ResultUserID = UserID req,
                     Verified = False, Confidence = 0, LivenessScore = 0, ProcessingTime = 0,
                     Timestamp = startTime run, Error = NoErrorText\<rparr>
      in case frameWait run of
           FrameWaitTimeout \<Rightarrow>
             (result\<lparr>Error := TextFrameExtractionTimeout\<rparr>, Some ErrFrameExtractionTimeout)
         | FramesArrive \<Rightarrow>
             (case extractFramesFromVideo (image_Decode lib) (VideoData req) of
                Inl err \<Rightarrow> (result\<lparr>Error := TextFailedToExtractFrames err\<rparr>, Some err)
              | Inr frames \<Rightarrow>
                  if length frames = 0
                  then (result\<lparr>Error := TextNoFramesExtracted\<rparr>, Some ErrNoFramesExtracted)
                  else
                    (case select_loop (events (joinWait run))
                            (detectLiveness (config s) frames)
                            (generateFaceVector (faceRecognizer s) (frames ! 0))
                            (None, None) of
                       Inl (text, err) \<Rightarrow> (result\<lparr>Error := text\<rparr>, Some err)
                     | Inr (None, faceVector) \<Rightarrow> (result, Some ErrNilDereference)
                     | Inr (Some livenessResult, faceVector) \<Rightarrow>
                         (let result = result\<lparr>LivenessScore := Score livenessResult\<rparr>
                          in if \<not> IsLive livenessResult
                             then (result\<lparr>Verified := False, Confidence := 0,
                                          ProcessingTime := elapsed run\<rparr>, None)
                             else
                               (let result =
                                  (if UserID req \<noteq> []
                                   then (case checkForDuplicates (faceVectors s) (UserID req)
                                                (case faceVector of None \<Rightarrow> [] | Some v \<Rightarrow> v) of
                                           Inl err \<Rightarrow> result
                                         | Inr confidence \<Rightarrow>
                                             result\<lparr>Confidence := confidence,
                                                    Verified :=
                                                      (confidence
                                                         \<ge> SimilarityThreshold (config s))\<rparr>)
                                   else result\<lparr>Confidence := 1, Verified := True\<rparr>)
                                in (result\<lparr>ProcessingTime := elapsed run\<rparr>, None))))))"

definition saveFaceVectors :: "Library \<Rightarrow> Service \<Rightarrow> Run \<Rightarrow> error option" where
  "saveFaceVectors lib s run =
     (case json_Marshal lib (faceVectors s) of
        Inl err \<Rightarrow> Some err
      | Inr data \<Rightarrow>
          (case encryptData lib (config s) (entropy run) data of
             Inl err \<Rightarrow> Some err
           | Inr encryptedData \<Rightarrow>
               (let storagePath = filepath_Join lib (StoragePath (config s)) ''face_vectors.enc''
                in os_WriteFile lib storagePath encryptedData)))"

text \<open>
  \<open>RegisterFace\<close> returns the service with its updated store and the error (\<open>None\<close> is
  \<open>nil\<close>). \<open>frames[0]\<close> of an empty slice is a panic.
\<close>

definition RegisterFace ::
  "Library \<Rightarrow> Service \<Rightarrow> Run \<Rightarrow> string \<Rightarrow> byte list \<Rightarrow> Service \<times> error option" where
  "RegisterFace lib s run userID videoData =
     (let req = \<lparr>VideoData = videoData, UserID = userID, SessionID = []\<rparr>
      in case VerifyVideo lib s run req of
           (result, Some err) \<Rightarrow> (s, Some err)
         | (result, None) \<Rightarrow>
             if \<not> Verified result
             then (s, Some (ErrFaceVerificationFailed (Confidence result)))
             else
               (case extractFramesFromVideo (image_Decode lib) videoData of
                  Inl err \<Rightarrow> (s, Some err)
                | Inr frames \<Rightarrow>
                    (case frames of
                       [] \<Rightarrow> (s, Some ErrIndexOutOfRange)
                     | frame0 # others \<Rightarrow>
                         (case generateFaceVector (faceRecognizer s) frame0 of
                            Inl err \<Rightarrow> (s, Some err)
                          | Inr faceVector \<Rightarrow>
                              (let vector = \<lparr>VectorUserID = userID, Vector = faceVector,
                                             CreatedAt = createdAt run, Version = ''1.0''\<rparr>;
                                   userVectors = (case faceVectors s userID of
                                                    None \<Rightarrow> []
                                                  | Some vs \<Rightarrow> vs);
                                   s = s\<lparr>faceVectors :=
                                           (faceVectors s)(userID \<mapsto> userVectors @ [vector])\<rparr>
                               in (s, saveFaceVectors lib s run))))))"

section \<open>API gateway\<close>

text \<open>
  A \<open>multipart.FileHeader\<close>: its name, its size, the \<open>Content-Type\<close> of its header and
  what \<open>Open\<close> yields (the bytes of the part, or an error).
\<close>

record FileHeader =
  Filename :: string
  Size :: int
  ContentType :: string
  Open :: "error + byte list"

definition validTypes :: "string list" where
  "validTypes = [''video/webm'', ''video/mp4'', ''video/avi'', ''video/mov'',
                 ''video/quicktime'', ''image/jpeg'', ''image/png'']"

definition validateVideoFile :: "FileHeader \<Rightarrow> error option" where
  "validateVideoFile file =
     (if Size file > 50 * 1024 * 1024 then Some (ErrVideoTooLarge (Size file))
      else if Size file < 1024 then Some (ErrVideoTooSmall (Size file))
      else
        (let contentType = ContentType file
         in if list_ex (\<lambda>validType. contentType = validType) validTypes then None
            else Some (ErrInvalidFileType contentType)))"

definition readVideoFile :: "FileHeader \<Rightarrow> error + byte list" where
  "readVideoFile file =
     (case Open file of
        Inl err \<Rightarrow> Inl (ErrOpenFailed err)
      | Inr src \<Rightarrow>
          (case io_ReadFull src (nat (Size file)) of
             Inl err \<Rightarrow> Inl (ErrReadFailed err)
           | Inr data \<Rightarrow> Inr data))"

definition valid_id_char :: "char \<Rightarrow> bool" where
  "valid_id_char c =
     ((CHR ''a'' \<le> c \<and> c \<le> CHR ''z'') \<or> (CHR ''A'' \<le> c \<and> c \<le> CHR ''Z'') \<or>
      (CHR ''0'' \<le> c \<and> c \<le> CHR ''9'') \<or> c = CHR ''-'' \<or> c = CHR ''_'')"

definition isValidUserID :: "string \<Rightarrow> bool" where
  "isValidUserID userID =
     (if length userID < 1 \<or> length userID > 64 then False
      else list_all valid_id_char userID)"

text \<open>
  A response of the handler: an error object with its status, its \<open>error\<close> text (a fixed
  string, or the text of an error), its \<open>code\<close> and optional \<open>details\<close>; or the success
  object with the result.
\<close>

datatype response =
    ErrorResponse nat "string + error" string "error option"
  | SuccessResponse VerificationResult

record MultipartForm =
  File :: "string \<Rightarrow> FileHeader list"
  PostForm :: "string \<Rightarrow> string"

text \<open>
  The handler \<open>VerifyVideo\<close>. \<open>form\<close> is what \<open>c.MultipartForm()\<close> yields (\<open>None\<close> when it
  fails), \<open>uuid\<close> the fresh session id, \<open>verify\<close> the service call and \<open>inTime\<close> whether it
  answers before the thirty-second timer.
\<close>

definition handler_VerifyVideo ::
  "(VerificationRequest \<Rightarrow> VerificationResult \<times> error option) \<Rightarrow> string \<Rightarrow> bool \<Rightarrow>
   MultipartForm option \<Rightarrow> response" where
  "handler_VerifyVideo verify uuid inTime form =
     (case form of
        None \<Rightarrow> ErrorResponse 400 (Inl ''Invalid form data'') ''INVALID_FORM_DATA'' None
      | Some form \<Rightarrow>
          (case File form ''video'' of
             [] \<Rightarrow> ErrorResponse 400 (Inl ''Video file is required'') ''MISSING_VIDEO_FILE'' None
           | file # others \<Rightarrow>
               (case validateVideoFile file of
                  Some err \<Rightarrow> ErrorResponse 400 (Inr err) ''INVALID_VIDEO_FILE'' None
                | None \<Rightarrow>
                    (case readVideoFile file of
                       Inl err \<Rightarrow>
                         ErrorResponse 500 (Inl ''Failed to process video file'')
                           ''FILE_READ_ERROR'' None
                     | Inr videoData \<Rightarrow>
                         (let userID = PostForm form ''user_id'';
                              sessionID = PostForm form ''session_id'';
                              sessionID = (if sessionID = [] then uuid else sessionID)
                          in if userID \<noteq> [] \<and> \<not> isValidUserID userID
                             then ErrorResponse 400 (Inl ''Invalid user ID format'')
                                    ''INVALID_USER_ID'' None
                             else
                               (let req = \<lparr>VideoData = videoData, UserID = userID,
                                           SessionID = sessionID\<rparr>
                                in if \<not> inTime
                                   then ErrorResponse 408
                                          (Inl ''Verification processing timeout'')
                                          ''VERIFICATION_TIMEOUT'' None
                                   else
                                     (case verify req of
                                        (result, Some err) \<Rightarrow>
                                          ErrorResponse 500
                                            (Inl ''Verification processing failed'')
                                            ''VERIFICATION_FAILED'' (Some err)
                                      | (result, None) \<Rightarrow> SuccessResponse result)))))))"

section \<open>The specification's words\<close>

text \<open>
  The specification states the similarity as \<open>dot(a, b)\<close> divided by
  the product of the Euclidean norms of \<open>a\<close> and \<open>b\<close>. The two
  definitions below follow those words, for comparison with the loop of the code.
\<close>

definition spec_dot :: "float32 list \<Rightarrow> float32 list \<Rightarrow> float64" where
  "spec_dot a b = sum_list (map (\<lambda>(x, y). x * y) (zip a b))"

definition spec_norm :: "float32 list \<Rightarrow> float64" where
  "spec_norm a = sqrt (sum_list (map (\<lambda>x. x * x) a))"

text \<open>
  What the store relies on from the authenticated cipher: \<open>Open\<close> under the same key,
  nonce and additional data returns what \<open>Seal\<close> was given.
\<close>

definition aead_correct :: "Library \<Rightarrow> bool" where
  "aead_correct lib =
     (\<forall>key nonce plaintext additionalData.
        length nonce = NonceSize \<longrightarrow>
        gcm_Open lib key nonce (gcm_Seal lib key nonce plaintext additionalData) additionalData
          = Inr plaintext)"

section \<open>Concrete inputs\<close>

text \<open>
  Inputs on which the definitions are evaluated below. \<open>sample_image\<close> is a picture of
  sixteen by one pixels, the first one white and the others black; \<open>sample_library\<close>
  decodes every non-empty upload to it and has a toy cipher in place of AES-GCM;
  \<open>default_config\<close> has the default thresholds of \<open>config.Load\<close> and the settings of the
  service's tests.
\<close>

definition white :: color where
  "white = (65535, 65535, 65535, 65535)"

definition black :: color where
  "black = (0, 0, 0, 65535)"

definition sample_image :: Image where
  "sample_image =
     \<lparr>Bounds = Rect 0 0 16 1,
      At = (\<lambda>p. if p = (0, 0) then white
                 else if point_In (fst p) (snd p) (Rect 0 0 16 1) then black
                 else (0, 0, 0, 0))\<rparr>"

definition sample_frames :: "Image list" where
  "sample_frames = [sample_image, frameCopy sample_image 1, frameCopy sample_image 2,
                    frameCopy sample_image 3, frameCopy sample_image 4]"

definition sample_recognizer :: Recognizer where
  "sample_recognizer =
     \<lparr>RecognizeRGBA = (\<lambda>pix width height stride. Inr [\<lparr>FaceRectangle = Rect 0 0 width height\<rparr>]),
      GetDescriptor = (\<lambda>pix width height stride r. Inr [3 / 5, 4 / 5])\<rparr>"

definition sample_library :: Library where
  "sample_library =
     \<lparr>image_Decode = (\<lambda>data. if data = [] then None else Some (sample_image, ''png'')),
      scrypt_Key = (\<lambda>password salt N r p keyLen.
         Inr (take keyLen (password @ replicate keyLen 0))),
      gcm_Seal = (\<lambda>key nonce plaintext additionalData. map (\<lambda>b. b + 1) plaintext @ [42]),
      gcm_Open = (\<lambda>key nonce ciphertext additionalData.
         if ciphertext \<noteq> [] \<and> last ciphertext = 42
         then Inr (map (\<lambda>b. b - 1) (butlast ciphertext))
         else Inl (ErrLibrary ''cipher: message authentication failed'')),
      json_Marshal = (\<lambda>vectors. Inr []),
      filepath_Join = (\<lambda>dir name. dir @ ''/'' @ name),
      os_WriteFile = (\<lambda>name data. None)\<rparr>"

definition default_config :: Config where
  "default_config =
     \<lparr>LivenessThreshold = 0.85, SimilarityThreshold = 0.75,
      EncryptionKey = ''test-encryption-key-for-testing-only'',
      StoragePath = ''/tmp/test_storage''\<rparr>"

definition sample_service :: "store \<Rightarrow> Service" where
  "sample_service vectors =
     \<lparr>config = default_config, faceRecognizer = sample_recognizer, faceVectors = vectors\<rparr>"

definition sample_run :: Run where
  "sample_run =
     \<lparr>startTime = 1762128000000000000, idTime = 1762128000000000100, elapsed = 1 / 2,
      frameWait = FramesArrive, joinWait = LivenessThenVector,
      createdAt = 1762128000500000000, entropy = [1, 2, 3, 4, 5, 6, 7, 8, 9, 10, 11, 12]\<rparr>"

definition sample_video :: "byte list" where
  "sample_video = [137, 80, 78, 71]"

definition enrolled_vector :: FaceVector where
  "enrolled_vector =
     \<lparr>VectorUserID = ''alice'', Vector = [4 / 5, 3 / 5], CreatedAt = 1762128000000000000,
      Version = ''1.0''\<rparr>"

definition opposite_vector :: FaceVector where
  "opposite_vector =
     \<lparr>VectorUserID = ''alice'', Vector = [- (3 / 5), - (4 / 5)],
      CreatedAt = 1762128000000000000, Version = ''1.0''\<rparr>"

definition ones_vector :: FaceVector where
  "ones_vector =
     \<lparr>VectorUserID = ''alice'', Vector = [1, 1, 1], CreatedAt = 1762128000000000000,
      Version = ''1.0''\<rparr>"

definition oversized_file :: FileHeader where
  "oversized_file =
     \<lparr>Filename = ''large.webm'', Size = 52428801, ContentType = ''video/webm'',
      Open = Inl (ErrLibrary ''not opened'')\<rparr>"

definition smallest_file :: FileHeader where
  "smallest_file =
     \<lparr>Filename = ''test.webm'', Size = 1024, ContentType = ''video/webm'',
      Open = Inr (replicate 1024 0)\<rparr>"

definition upload :: "FileHeader \<Rightarrow> MultipartForm" where
  "upload file =
     \<lparr>File = (\<lambda>field. if field = ''video'' then [file] else []), PostForm = (\<lambda>field. [])\<rparr>"

section \<open>Loops and pictures\<close>

lemma steps_step: "lo < hi \<Longrightarrow> 0 < st \<Longrightarrow> steps lo hi st = lo # steps (lo + st) hi st"
  by (subst steps.simps) simp

lemma steps_stop: "\<not> lo < hi \<Longrightarrow> steps lo hi st = []"
  by (subst steps.simps) simp

lemma steps_1_5: "steps 1 5 1 = [1, 2, 3, 4]"
  by (simp add: steps_step steps_stop)

lemma steps_0_16_4: "steps 0 16 4 = [0, 4, 8, 12]"
  by (simp add: steps_step steps_stop)

lemma steps_0_1_4: "steps 0 1 4 = [0]"
  by (simp add: steps_step steps_stop)

lemma upt_1_5: "[1..<5] = [1, 2, 3, 4]"
  by (simp add: upt_rec)

lemma set_steps_unit: "set (steps lo hi 1) = {lo..<hi}"
proof (induction lo hi "1 :: int" rule: steps.induct)
  case (1 lo hi)
  show ?case
  proof (cases "lo < hi")
    case True
    with 1 show ?thesis by (auto simp: steps_step)
  next
    case False
    then show ?thesis by (simp add: steps_stop)
  qed
qed

lemma Bounds_SetRGBA [simp]: "Bounds (SetRGBA img x y c) = Bounds img"
  by (simp add: SetRGBA_def)

lemma At_SetRGBA:
  "At (SetRGBA img x y c) p = (if p = (x, y) \<and> point_In x y (Bounds img) then c else At img p)"
  by (simp add: SetRGBA_def)

lemma Bounds_row [simp]: "Bounds (fold (\<lambda>x fc. SetRGBA fc x y (c x)) xs fc) = Bounds fc"
  by (induction xs arbitrary: fc) simp_all

lemma At_row:
  "At (fold (\<lambda>x fc. SetRGBA fc x y (c x)) xs fc) p =
     (if fst p \<in> set xs \<and> snd p = y \<and> point_In (fst p) y (Bounds fc) then c (fst p)
      else At fc p)"
  by (induction xs arbitrary: fc) (auto simp: At_SetRGBA)

lemma Bounds_rows [simp]:
  "Bounds (fold (\<lambda>y fc. fold (\<lambda>x fc. SetRGBA fc x y (c x y)) xs fc) ys fc) = Bounds fc"
  by (induction ys arbitrary: fc) simp_all

lemma At_rows:
  "At (fold (\<lambda>y fc. fold (\<lambda>x fc. SetRGBA fc x y (c x y)) xs fc) ys fc) p =
     (if fst p \<in> set xs \<and> snd p \<in> set ys \<and> point_In (fst p) (snd p) (Bounds fc)
      then c (fst p) (snd p) else At fc p)"
  by (induction ys arbitrary: fc) (auto simp: At_row)

text \<open>
  The picture that the two nested loops of the frame synthesis leave behind: the noisy
  colour at every pixel they reach inside the bounds, black transparent elsewhere.
\<close>

lemma frameCopy_alt:
  "frameCopy img i =
     fold (\<lambda>y fc. fold (\<lambda>x fc. SetRGBA fc x y
        (case At img (x, y) of (r, g, b, a) \<Rightarrow>
           color_RGBA (high_byte (add_noise r (i * 2))) (high_byte (add_noise g (i * 2)))
             (high_byte (add_noise b (i * 2))) (high_byte a)))
       (steps 0 (Dx (Bounds img)) 1) fc) (steps 0 (Dy (Bounds img)) 1) (NewRGBA (Bounds img))"
  by (simp add: frameCopy_def Let_def split_def)

lemma Bounds_frameCopy [simp]: "Bounds (frameCopy img i) = Bounds img"
  by (simp only: frameCopy_alt Bounds_rows) (simp add: NewRGBA_def)

lemma At_frameCopy:
  "At (frameCopy img i) p =
     (if 0 \<le> fst p \<and> fst p < Dx (Bounds img) \<and> 0 \<le> snd p \<and> snd p < Dy (Bounds img) \<and>
         point_In (fst p) (snd p) (Bounds img)
      then (case At img p of (r, g, b, a) \<Rightarrow>
           color_RGBA (high_byte (add_noise r (i * 2))) (high_byte (add_noise g (i * 2)))
             (high_byte (add_noise b (i * 2))) (high_byte a))
      else (0, 0, 0, 0))"
  by (simp only: frameCopy_alt At_rows set_steps_unit) (auto simp: NewRGBA_def)

section \<open>Frame source\<close>

lemma extractFrames_eq:
  "extractFramesFromVideo decode videoData =
     Inr (let img = (case decode videoData of None \<Rightarrow> placeholder | Some (img, format) \<Rightarrow> img)
          in [img, frameCopy img 1, frameCopy img 2, frameCopy img 3, frameCopy img 4])"
  by (simp add: extractFramesFromVideo_def steps_1_5 Let_def)

lemma select_loop_Inl:
  "select_loop es l v acc = Inl (t, e) \<Longrightarrow>
     (t = TextProcessingTimeout \<and> e = ErrProcessingTimeout) \<or>
     (l = Inl e \<and> t = TextLivenessDetectionFailed e) \<or>
     (v = Inl e \<and> t = TextFaceVectorGenerationFailed e)"
  by (induction es l v acc rule: select_loop.induct) (auto split: sum.splits)

lemma select_loop_both:
  "select_loop (events w) l v (None, None) = Inr (lr, fv) \<Longrightarrow>
     (w = LivenessThenVector \<or> w = VectorThenLiveness) \<and>
     (\<exists>r u. l = Inr r \<and> v = Inr u \<and> lr = Some r \<and> fv = Some u)"
  by (cases w) (auto split: sum.splits)

lemma detectLiveness_Inr: "\<exists>r. detectLiveness cfg frames = Inr r"
  by (simp add: detectLiveness_def Let_def)

lemma generateFaceVector_Inl:
  "generateFaceVector rec img = Inl e \<Longrightarrow>
     (\<exists>e'. e = ErrFaceDetectionFailed e') \<or> e = ErrNoFacesDetected \<or>
     (\<exists>e'. e = ErrFaceDescriptorFailed e')"
  by (auto simp: generateFaceVector_def Let_def split: sum.splits list.splits)

text \<open>
  C10. Whatever bytes are uploaded, decodable or not, \<open>extractFramesFromVideo\<close> returns
  exactly five frames and no error. So \<open>VerifyVideo\<close> never reports that no frames were
  extracted, nor that the extraction failed: neither text is ever written into the
  result, and the error "no frames extracted" is never returned.
\<close>

theorem extractFrames_five:
  "(\<exists>frames. extractFramesFromVideo (image_Decode lib) (VideoData req) = Inr frames \<and>
      length frames = 5) \<and>
   Error (fst (VerifyVideo lib s run req)) \<noteq> TextNoFramesExtracted \<and>
   (\<forall>err. Error (fst (VerifyVideo lib s run req)) \<noteq> TextFailedToExtractFrames err) \<and>
   snd (VerifyVideo lib s run req) \<noteq> Some ErrNoFramesExtracted"
proof -
  obtain frames
    where fr: "extractFramesFromVideo (image_Decode lib) (VideoData req) = Inr frames"
      and len: "length frames = 5"
    by (simp add: extractFrames_eq Let_def)
  obtain r where lr: "detectLiveness (config s) frames = Inr r"
    using detectLiveness_Inr by blast
  let ?loop = "select_loop (events (joinWait run)) (detectLiveness (config s) frames)
                 (generateFaceVector (faceRecognizer s) (frames ! 0)) (None, None)"
  have loop: "t \<noteq> TextNoFramesExtracted \<and> (\<forall>err. t \<noteq> TextFailedToExtractFrames err) \<and>
              e \<noteq> ErrNoFramesExtracted"
    if a: "?loop = Inl (t, e)" for t e
  proof -
    from select_loop_Inl [OF a] lr
    consider "t = TextProcessingTimeout" "e = ErrProcessingTimeout"
      | "generateFaceVector (faceRecognizer s) (frames ! 0) = Inl e"
        "t = TextFaceVectorGenerationFailed e"
      by auto
    then show ?thesis
    proof cases
      case 1
      then show ?thesis by simp
    next
      case 2
      from generateFaceVector_Inl [OF 2(1)] 2(2) show ?thesis by auto
    qed
  qed
  show ?thesis
    using fr len loop
    by (auto simp: VerifyVideo_def Let_def
        split: frame_wait.splits sum.splits prod.splits option.splits)
qed

theorem extractFrames_five_witness:
  "(\<exists>frames. extractFramesFromVideo (image_Decode sample_library) [] = Inr frames \<and>
      length frames = 5) \<and>
   Error (fst (VerifyVideo sample_library (sample_service Map.empty) sample_run
             \<lparr>VideoData = [], UserID = [], SessionID = ''test-session-empty''\<rparr>))
     \<noteq> TextNoFramesExtracted"
  using extractFrames_five [of sample_library
      "\<lparr>VideoData = [], UserID = [], SessionID = ''test-session-empty''\<rparr>"
      "sample_service Map.empty" sample_run]
  by simp

section \<open>Liveness detector\<close>

text \<open>
  C5. On fewer than two frames, the empty sequence included, \<open>detectLiveness\<close> returns
  a result and no error: not live, score 0, confidence 0.
\<close>

theorem detectLiveness_short:
  "length frames < 2 \<Longrightarrow>
   detectLiveness cfg frames =
     Inr \<lparr>IsLive = False, LivenessConfidence = 0, Method = ''motion_texture_analysis'',
          Score = 0\<rparr>"
  by (simp add: detectLiveness_def)

theorem detectLiveness_short_witness:
  "detectLiveness default_config [] =
     Inr \<lparr>IsLive = False, LivenessConfidence = 0, Method = ''motion_texture_analysis'',
          Score = 0\<rparr> \<and>
   detectLiveness default_config [sample_image] =
     Inr \<lparr>IsLive = False, LivenessConfidence = 0, Method = ''motion_texture_analysis'',
          Score = 0\<rparr>"
proof -
  have "length ([] :: Image list) < 2" and "length [sample_image] < 2"
    by simp_all
  then show ?thesis
    using detectLiveness_short [of "[]" default_config]
      detectLiveness_short [of "[sample_image]" default_config]
    by simp
qed

text \<open>
  C6. On two frames or more, the score of \<open>detectLiveness\<close> is 0.4 times the motion score
  plus 0.4 times the texture consistency plus 0.2 times the colour consistency of the
  frames, and the result is live exactly when that score reaches \<open>LivenessThreshold\<close>.
\<close>

theorem detectLiveness_weighted:
  "2 \<le> length frames \<Longrightarrow>
   \<exists>r. detectLiveness cfg frames = Inr r \<and>
       Score r = 0.4 * calculateMotionScore frames + 0.4 * calculateTextureConsistency frames
                 + 0.2 * calculateColorConsistency frames \<and>
       (IsLive r \<longleftrightarrow> Score r \<ge> LivenessThreshold cfg)"
  by (simp add: detectLiveness_def Let_def)

text \<open>The three signals and the score of the sample frames.\<close>

lemma sample_Bounds: "Bounds sample_image = \<lparr>MinX = 0, MinY = 0, MaxX = 16, MaxY = 1\<rparr>"
  by (simp add: sample_image_def Rect_def)

lemma At_sample_copy:
  "i = 1 \<or> i = 2 \<or> i = 3 \<or> i = 4 \<Longrightarrow>
   At (frameCopy sample_image i) p =
     (if point_In (fst p) (snd p) (Rect 0 0 16 1) then black else (0, 0, 0, 0))"
  by (auto simp: At_frameCopy sample_image_def white_def black_def Rect_def point_In_def
      Dx_def Dy_def color_RGBA_def high_byte_def add_noise_def widen_def)

lemma sample_motion_first: "calculateFrameMotion sample_image (frameCopy sample_image 1) = 3 / 4"
  by (simp add: calculateFrameMotion_def sample_Bounds rect_Eq_def steps_0_16_4 steps_0_1_4
      Let_def At_sample_copy)
     (simp add: sample_image_def white_def black_def Rect_def point_In_def f64_def)

lemma sample_motion_rest:
  "i = 1 \<or> i = 2 \<or> i = 3 \<or> i = 4 \<Longrightarrow> j = 1 \<or> j = 2 \<or> j = 3 \<or> j = 4 \<Longrightarrow>
   calculateFrameMotion (frameCopy sample_image i) (frameCopy sample_image j) = 0"
  by (simp add: calculateFrameMotion_def sample_Bounds rect_Eq_def steps_0_16_4 steps_0_1_4
      Let_def At_sample_copy)
     (simp add: black_def)

lemma sample_motion: "calculateMotionScore sample_frames = 1"
  by (simp add: calculateMotionScore_def sample_frames_def upt_1_5 sample_motion_first
      sample_motion_rest Let_def)

lemma texture_flat: "Dy (Bounds img) \<le> 2 \<Longrightarrow> calculateFrameTexture img = 0"
  by (simp add: calculateFrameTexture_def Let_def Dy_def steps_stop)

lemma sample_texture: "calculateTextureConsistency sample_frames = 1"
  by (simp add: calculateTextureConsistency_def sample_frames_def texture_flat Dy_def
      sample_Bounds Let_def)

lemma sample_color_first: "calculateAverageColor sample_image = (1 / 4, 1 / 4, 1 / 4)"
  by (simp add: calculateAverageColor_def sample_Bounds steps_0_16_4 steps_0_1_4 Let_def)
     (simp add: sample_image_def white_def black_def Rect_def point_In_def f64_def)

lemma sample_color_rest:
  "i = 1 \<or> i = 2 \<or> i = 3 \<or> i = 4 \<Longrightarrow>
   calculateAverageColor (frameCopy sample_image i) = (0, 0, 0)"
  by (simp add: calculateAverageColor_def sample_Bounds steps_0_16_4 steps_0_1_4 Let_def
      At_sample_copy)
     (simp add: black_def Rect_def point_In_def f64_def)

lemma sample_color: "calculateColorConsistency sample_frames = 7 / 10"
  by (simp add: calculateColorConsistency_def sample_frames_def sample_color_first
      sample_color_rest Let_def power2_eq_square)

lemma sample_liveness:
  "detectLiveness cfg sample_frames =
     Inr \<lparr>IsLive = (LivenessThreshold cfg \<le> 47 / 50), LivenessConfidence = 47 / 50,
          Method = ''motion_texture_analysis'', Score = 47 / 50\<rparr>"
  by (simp add: detectLiveness_def Let_def sample_motion sample_texture sample_color)
     (simp add: sample_frames_def)

theorem detectLiveness_weighted_witness:
  "2 \<le> length sample_frames \<and>
   (\<exists>r. detectLiveness default_config sample_frames = Inr r \<and> Score r = 47 / 50 \<and> IsLive r)"
proof -
  have len: "2 \<le> length sample_frames"
    by (simp add: sample_frames_def)
  from detectLiveness_weighted [OF len, of default_config]
  obtain r where r: "detectLiveness default_config sample_frames = Inr r"
    and score: "Score r = 0.4 * calculateMotionScore sample_frames
                  + 0.4 * calculateTextureConsistency sample_frames
                  + 0.2 * calculateColorConsistency sample_frames"
    and live: "IsLive r \<longleftrightarrow> Score r \<ge> LivenessThreshold default_config"
    by blast
  from score have "Score r = 47 / 50"
    by (simp add: sample_motion sample_texture sample_color)
  moreover from this live have "IsLive r"
    by (simp add: default_config_def)
  ultimately show ?thesis
    using len r by blast
qed

section \<open>Similarity matcher\<close>

lemma cosine_loop_sums:
  "length a = length b \<Longrightarrow>
   cosine_loop a b (d, na, nb) =
     (d + spec_dot a b, na + sum_list (map (\<lambda>x. x * x) a), nb + sum_list (map (\<lambda>x. x * x) b))"
  by (induction a b arbitrary: d na nb rule: list_induct2) (simp_all add: spec_dot_def)

lemma sum_squares_nonneg: "0 \<le> sum_list (map (\<lambda>x. x * x) (a :: real list))"
  by (induction a) simp_all

lemma sum_squares_zero:
  "sum_list (map (\<lambda>x. x * x) (a :: real list)) = 0 \<longleftrightarrow> list_all (\<lambda>x. x = 0) a"
proof (induction a)
  case Nil
  show ?case by simp
next
  case (Cons x xs)
  have "x * x + sum_list (map (\<lambda>x. x * x) xs) = 0 \<longleftrightarrow>
        x * x = 0 \<and> sum_list (map (\<lambda>x. x * x) xs) = 0"
    by (rule add_nonneg_eq_0_iff) (simp_all add: sum_squares_nonneg)
  with Cons.IH show ?case by simp
qed

lemma cosineSimilarity_eq:
  "cosineSimilarity a b =
     (if length a \<noteq> length b \<or> list_all (\<lambda>x. x = 0) a \<or> list_all (\<lambda>x. x = 0) b then 0
      else spec_dot a b / (spec_norm a * spec_norm b))"
  by (simp add: cosineSimilarity_def cosine_loop_sums sum_squares_zero spec_norm_def)

text \<open>
  C4. \<open>cosineSimilarity a b\<close> is exactly 0 when the lengths differ or when one of the
  vectors is all zero (the empty vector included); otherwise it is the dot product of
  \<open>a\<close> and \<open>b\<close> divided by the product of their Euclidean norms. It is a value in every
  case, never an error.
\<close>

theorem cosineSimilarity_spec:
  "cosineSimilarity a b =
     (if length a \<noteq> length b \<or> list_all (\<lambda>x. x = 0) a \<or> list_all (\<lambda>x. x = 0) b then 0
      else spec_dot a b / (spec_norm a * spec_norm b))"
  by (rule cosineSimilarity_eq)

theorem cosineSimilarity_spec_witness:
  "cosineSimilarity [1, 2] [1, 2, 3] = 0 \<and> cosineSimilarity [0, 0] [1, 2] = 0 \<and>
   cosineSimilarity [3 / 5, 4 / 5] [4 / 5, 3 / 5] = 24 / 25"
  using cosineSimilarity_spec [of "[1, 2]" "[1, 2, 3]"] cosineSimilarity_spec [of "[0, 0]" "[1, 2]"]
    cosineSimilarity_spec [of "[3 / 5, 4 / 5]" "[4 / 5, 3 / 5]"]
  by (simp add: spec_dot_def spec_norm_def)

lemma similarity_loop_fold:
  "similarity_loop newVector userVectors m =
     fold max (map (\<lambda>v. cosineSimilarity newVector (Vector v)) userVectors) m"
  by (induction userVectors arbitrary: m) (simp_all add: Let_def max_def)

lemma similarity_loop_Max:
  "similarity_loop newVector userVectors m =
     Max (set (m # map (\<lambda>v. cosineSimilarity newVector (Vector v)) userVectors))"
  by (simp only: similarity_loop_fold Max.set_eq_fold)

lemma cos_enrolled: "cosineSimilarity [3 / 5, 4 / 5] (Vector enrolled_vector) = 24 / 25"
  by (simp add: cosineSimilarity_def enrolled_vector_def)

lemma cos_opposite: "cosineSimilarity [3 / 5, 4 / 5] (Vector opposite_vector) = - 1"
  by (simp add: cosineSimilarity_def opposite_vector_def)

text \<open>
  C3, as amended. For a claimed identity with at least one stored embedding, the
  similarity reported by \<open>checkForDuplicates\<close> is the greatest cosine similarity between
  the new vector and the stored ones, but never less than 0: it is the maximum of 0 and
  that greatest value. When every cosine similarity is negative, 0 is reported.
\<close>

theorem checkForDuplicates_max_clamped:
  "stored userID = Some userVectors \<Longrightarrow> userVectors \<noteq> [] \<Longrightarrow>
   checkForDuplicates stored userID newVector =
     Inr (max 0 (Max (set (map (\<lambda>v. cosineSimilarity newVector (Vector v)) userVectors))))"
  by (simp add: checkForDuplicates_def similarity_loop_Max)

theorem checkForDuplicates_max_clamped_witness:
  "checkForDuplicates (Map.empty(''alice'' \<mapsto> [opposite_vector, enrolled_vector])) ''alice''
      [3 / 5, 4 / 5] = Inr (24 / 25)"
proof -
  have s: "(Map.empty(''alice'' \<mapsto> [opposite_vector, enrolled_vector])) ''alice''
             = Some [opposite_vector, enrolled_vector]"
    by simp
  have n: "[opposite_vector, enrolled_vector] \<noteq> []"
    by simp
  from checkForDuplicates_max_clamped
      [of "Map.empty(''alice'' \<mapsto> [opposite_vector, enrolled_vector])" "''alice''"
          "[opposite_vector, enrolled_vector]" "[3 / 5, 4 / 5]"] s n
  show ?thesis
    by (simp add: cos_enrolled cos_opposite)
qed

text \<open>
  The claim as stated fails where the only stored embedding points the opposite way: the
  greatest cosine similarity is -1, and 0 is reported.
\<close>

theorem checkForDuplicates_negative_counterexample:
  "checkForDuplicates (Map.empty(''alice'' \<mapsto> [opposite_vector])) ''alice'' [3 / 5, 4 / 5] = Inr 0 \<and>
   Max (set (map (\<lambda>v. cosineSimilarity [3 / 5, 4 / 5] (Vector v)) [opposite_vector])) = - 1"
  by (simp add: checkForDuplicates_def cos_opposite)

section \<open>Ranges of the scores\<close>

text \<open>
  The three liveness signals and the score lie between 0 and 1, and the similarity
  reported for an identity is never negative.
\<close>

lemma fold_max_ge: "m \<le> fold max cs (m :: real)"
proof (induction cs arbitrary: m)
  case Nil
  show ?case by simp
next
  case (Cons c cs)
  have "m \<le> max c m" by simp
  also have "\<dots> \<le> fold max cs (max c m)" by (rule Cons.IH)
  finally show ?case by simp
qed

lemma checkForDuplicates_nonneg:
  "checkForDuplicates stored userID newVector = Inr c \<Longrightarrow> 0 \<le> c"
  using fold_max_ge [of 0]
  by (auto simp: checkForDuplicates_def similarity_loop_fold split: option.splits if_splits)

lemma frameMotion_nonneg: "0 \<le> calculateFrameMotion img1 img2"
  by (auto simp: calculateFrameMotion_def Let_def split_def
      intro!: divide_nonneg_nonneg sum_list_nonneg)

lemma motionScore_range: "0 \<le> calculateMotionScore frames \<and> calculateMotionScore frames \<le> 1"
  by (auto simp: calculateMotionScore_def Let_def frameMotion_nonneg
      intro!: divide_nonneg_nonneg sum_list_nonneg mult_nonneg_nonneg)

lemma textureConsistency_range:
  "0 \<le> calculateTextureConsistency frames \<and> calculateTextureConsistency frames \<le> 1"
  by (auto simp: calculateTextureConsistency_def Let_def
      intro!: divide_nonneg_nonneg sum_list_nonneg mult_nonneg_nonneg)

lemma colorConsistency_range:
  "0 \<le> calculateColorConsistency frames \<and> calculateColorConsistency frames \<le> 1"
  by (auto simp: calculateColorConsistency_def Let_def split_def
      intro!: divide_nonneg_nonneg sum_list_nonneg mult_nonneg_nonneg add_nonneg_nonneg)

lemma detectLiveness_range:
  "detectLiveness cfg frames = Inr r \<Longrightarrow> 0 \<le> Score r \<and> Score r \<le> 1"
  using motionScore_range [of frames] textureConsistency_range [of frames]
    colorConsistency_range [of frames]
  by (auto simp: detectLiveness_def Let_def split: if_splits)

section \<open>Binary64 rounding\<close>

lemma round_even_nearest: "\<bar>r - of_int n\<bar> < 1 / 2 \<Longrightarrow> round_even r = n"
proof (cases "of_int n \<le> r")
  case True
  assume a: "\<bar>r - of_int n\<bar> < 1 / 2"
  with True have "\<lfloor>r\<rfloor> = n" by (intro floor_unique) auto
  with a True show ?thesis by (simp add: round_even_def Let_def)
next
  case False
  assume a: "\<bar>r - of_int n\<bar> < 1 / 2"
  with False have "\<lfloor>r\<rfloor> = n - 1" by (intro floor_unique) auto
  with a False show ?thesis by (auto simp: round_even_def Let_def)
qed

lemma floor_log2:
  assumes "pow2 k \<le> \<bar>x\<bar>" and "\<bar>x\<bar> < 2 * pow2 k"
  shows "\<lfloor>log 2 \<bar>x\<bar>\<rfloor> = k"
proof -
  have p: "pow2 k = 2 powr (of_int k)"
    by (cases "0 \<le> k")
      (simp_all add: pow2_def powr_realpow [symmetric] powr_minus_divide [symmetric])
  have pos: "0 < pow2 k" by (simp add: pow2_def)
  have "\<bar>x\<bar> > 0" using assms(1) pos by linarith
  moreover have "2 powr (of_int (k + 1)) = 2 * pow2 k"
    by (simp add: p powr_add)
  ultimately show ?thesis
    using assms by (simp add: floor_log_eq_powr_iff p)
qed

text \<open>
  A value between \<open>2 ^ k\<close> and \<open>2 ^ (k + 1)\<close> is rounded to the multiple of
  \<open>2 ^ (k - 52)\<close> that lies less than half a unit away.
\<close>

lemma binary64_nearest:
  assumes "pow2 k \<le> \<bar>x\<bar>" and "\<bar>x\<bar> < 2 * pow2 k"
    and "\<bar>x / pow2 (k - 52) - of_int n\<bar> < 1 / 2"
  shows "binary64 x = of_int n * pow2 (k - 52)"
proof -
  have "0 < pow2 k" by (simp add: pow2_def)
  with assms(1) have "x \<noteq> 0" by auto
  then show ?thesis
    by (simp add: binary64_def Let_def floor_log2 [OF assms(1,2)]
        round_even_nearest [OF assms(3)])
qed

lemma binary64_1: "binary64 1 = 1"
  using binary64_nearest [of 0 1 4503599627370496] by (simp add: pow2_def)

lemma binary64_2: "binary64 2 = 2"
  using binary64_nearest [of 1 2 4503599627370496] by (simp add: pow2_def)

lemma binary64_3: "binary64 3 = 3"
  using binary64_nearest [of 1 3 6755399441055744] by (simp add: pow2_def)

text \<open>
  The three roundings of the similarity of \<open>[1, 1, 1]\<close> with itself: the square root
  of 3 is rounded down, to 1.7320508075688772; its square is rounded to
  2.9999999999999996, one unit below 3; and 3 divided by that is rounded up to
  1.0000000000000002, one unit of the last place above 1.
\<close>

lemma binary64_sqrt_3: "binary64 (sqrt 3) = 3900231685776981 / 2251799813685248"
proof -
  have lo: "15600926743107923 / 9007199254740992 < sqrt 3"
    by (rule real_less_rsqrt) (simp add: power2_eq_square)
  have hi: "sqrt 3 < 15600926743107925 / 9007199254740992"
    by (rule real_less_lsqrt) (simp_all add: power2_eq_square)
  have one: "pow2 0 \<le> \<bar>sqrt 3\<bar>"
    by (simp add: pow2_def)
  have two: "\<bar>sqrt 3\<bar> < 2 * pow2 0"
    using hi by (simp add: pow2_def)
  have scale: "sqrt 3 / pow2 (0 - 52) - of_int 7800463371553962
                 = sqrt 3 * 4503599627370496 - 7800463371553962"
    by (simp add: pow2_def)
  have below: "sqrt 3 * 4503599627370496 - 7800463371553962 < 1 / 2"
    using hi by (simp add: field_simps)
  have above: "- (1 / 2) < sqrt 3 * 4503599627370496 - 7800463371553962"
    using lo by (simp add: field_simps)
  have near: "\<bar>sqrt 3 / pow2 (0 - 52) - of_int 7800463371553962\<bar> < 1 / 2"
    unfolding scale abs_less_iff using below above by simp
  from binary64_nearest [OF one two near] show ?thesis
    by (simp add: pow2_def)
qed

lemma binary64_product:
  "binary64 (3900231685776981 / 2251799813685248 * (3900231685776981 / 2251799813685248))
     = 6755399441055743 / 2251799813685248"
proof -
  let ?x = "3900231685776981 / 2251799813685248 * (3900231685776981 / 2251799813685248) :: real"
  have one: "pow2 1 \<le> \<bar>?x\<bar>"
    by (simp add: pow2_def)
  have two: "\<bar>?x\<bar> < 2 * pow2 1"
    by (simp add: pow2_def)
  have near: "\<bar>?x / pow2 (1 - 52) - of_int 6755399441055743\<bar> < 1 / 2"
    by (simp add: pow2_def abs_less_iff)
  from binary64_nearest [OF one two near] show ?thesis
    by (simp add: pow2_def)
qed

lemma binary64_quotient:
  "binary64 (3 / (6755399441055743 / 2251799813685248)) = 4503599627370497 / 4503599627370496"
proof -
  let ?x = "3 / (6755399441055743 / 2251799813685248) :: real"
  have one: "pow2 0 \<le> \<bar>?x\<bar>"
    by (simp add: pow2_def)
  have two: "\<bar>?x\<bar> < 2 * pow2 0"
    by (simp add: pow2_def)
  have near: "\<bar>?x / pow2 (0 - 52) - of_int 4503599627370497\<bar> < 1 / 2"
    by (simp add: pow2_def abs_less_iff)
  from binary64_nearest [OF one two near] show ?thesis
    by (simp add: pow2_def)
qed

lemma cosine_loop_ones: "cosine_loop_binary64 [1, 1, 1] [1, 1, 1] (0, 0, 0) = (3, 3, 3)"
  by (simp add: binary64_1 binary64_2 binary64_3)

lemma cosine_ones:
  "cosineSimilarity_binary64 [1, 1, 1] [1, 1, 1] = 4503599627370497 / 4503599627370496"
proof -
  have "cosineSimilarity_binary64 [1, 1, 1] [1, 1, 1]
          = binary64 (3 / binary64 (binary64 (sqrt 3) * binary64 (sqrt 3)))"
    by (simp add: cosineSimilarity_binary64_def cosine_loop_ones
        del: cosine_loop_binary64.simps)
  also have "\<dots> = binary64 (3 / binary64
      (3900231685776981 / 2251799813685248 * (3900231685776981 / 2251799813685248)))"
    by (simp only: binary64_sqrt_3)
  also have "\<dots> = binary64 (3 / (6755399441055743 / 2251799813685248))"
    by (simp only: binary64_product)
  also have "\<dots> = 4503599627370497 / 4503599627370496"
    by (rule binary64_quotient)
  finally show ?thesis .
qed

text \<open>
  C9. The claim does not hold of the code: the confidence can exceed 1. For an identity
  whose stored embedding is \<open>[1, 1, 1]\<close> and a new descriptor \<open>[1, 1, 1]\<close>, the rounded
  computation of \<open>checkForDuplicates\<close> reports 4503599627370497 / 4503599627370496, that
  is 1.0000000000000002. \<open>VerifyVideo\<close> stores what \<open>checkForDuplicates\<close> reports as the
  confidence of its result, unchanged (lemma \<open>VerifyVideo_live\<close> below), and returns it
  with no error. The liveness score does stay between 0 and 1, and the confidence is never
  negative.
\<close>

theorem checkForDuplicates_exceeds_one:
  "checkForDuplicates_binary64 (Map.empty(''alice'' \<mapsto> [ones_vector])) ''alice'' [1, 1, 1]
     = Inr (4503599627370497 / 4503599627370496) \<and>
   (1 :: real) < 4503599627370497 / 4503599627370496"
  by (simp add: checkForDuplicates_binary64_def ones_vector_def cosine_ones)

section \<open>Vector store encryption\<close>

lemma encryptData_ok:
  assumes "deriveKey lib (EncryptionKey cfg) = Inr key"
    and "length key = 32"
    and "NonceSize \<le> length random"
  shows "encryptData lib cfg random data =
           Inr (take NonceSize random @ gcm_Seal lib key (take NonceSize random) data [])"
  using assms
  by (simp add: encryptData_def aes_NewCipher_def cipher_NewGCM_def io_ReadFull_def Seal_def)

text \<open>
  C7. With an authenticated cipher whose \<open>Open\<close> inverts its \<open>Seal\<close>, a key of 32 bytes
  derived from the configured secret and twelve bytes from the random source, every
  plaintext is encrypted to the nonce followed by the sealed bytes, and \<open>decryptData\<close>
  under the same secret splits the nonce off again and returns exactly the plaintext.
\<close>

theorem encrypt_decrypt_roundtrip:
  assumes "aead_correct lib"
    and "deriveKey lib (EncryptionKey cfg) = Inr key"
    and "length key = 32"
    and "NonceSize \<le> length random"
  shows "\<exists>sealed. encryptData lib cfg random data = Inr (take NonceSize random @ sealed) \<and>
           decryptData lib cfg (take NonceSize random @ sealed) = Inr data"
proof -
  let ?nonce = "take NonceSize random"
  let ?sealed = "gcm_Seal lib key ?nonce data []"
  have n: "length ?nonce = NonceSize"
    using assms(4) by simp
  have enc: "encryptData lib cfg random data = Inr (?nonce @ ?sealed)"
    by (rule encryptData_ok [OF assms(2,3,4)])
  have "gcm_Open lib key ?nonce ?sealed [] = Inr data"
    using assms(1) n by (simp add: aead_correct_def)
  then have "decryptData lib cfg (?nonce @ ?sealed) = Inr data"
    using assms(2,3) n
    by (simp add: decryptData_def aes_NewCipher_def cipher_NewGCM_def Let_def)
  with enc show ?thesis by blast
qed

lemma sample_aead: "aead_correct sample_library"
  by (simp add: aead_correct_def sample_library_def comp_def)

lemma sample_key:
  "deriveKey sample_library (EncryptionKey default_config) =
     Inr (take 32 (bytes_of ''test-encryption-key-for-testing-only'' @ replicate 32 0))"
  by (simp add: deriveKey_def sample_library_def default_config_def)

lemma sample_key_length:
  "length (take 32 (bytes_of ''test-encryption-key-for-testing-only'' @ replicate 32 (0 :: byte)))
     = 32"
  by (simp add: bytes_of_def)

lemma sample_encrypt:
  "encryptData sample_library default_config [1, 2, 3, 4, 5, 6, 7, 8, 9, 10, 11, 12, 13] [104, 105]
     = Inr [1, 2, 3, 4, 5, 6, 7, 8, 9, 10, 11, 12, 105, 106, 42]"
  using sample_key_length
  by (simp add: encryptData_def sample_key aes_NewCipher_def cipher_NewGCM_def io_ReadFull_def
      NonceSize_def Seal_def)
     (simp add: sample_library_def)

theorem encrypt_decrypt_roundtrip_witness:
  "encryptData sample_library default_config [1, 2, 3, 4, 5, 6, 7, 8, 9, 10, 11, 12, 13]
       [104, 105] =
     Inr [1, 2, 3, 4, 5, 6, 7, 8, 9, 10, 11, 12, 105, 106, 42] \<and>
   decryptData sample_library default_config
       [1, 2, 3, 4, 5, 6, 7, 8, 9, 10, 11, 12, 105, 106, 42] =
     Inr [104, 105]"
proof -
  have e: "NonceSize \<le> length [1, 2, 3, 4, 5, 6, 7, 8, 9, 10, 11, 12, 13 :: byte]"
    by (simp add: NonceSize_def)
  from encrypt_decrypt_roundtrip [OF sample_aead sample_key sample_key_length e, of "[104, 105]"]
  obtain sealed where
    "encryptData sample_library default_config [1, 2, 3, 4, 5, 6, 7, 8, 9, 10, 11, 12, 13]
       [104, 105]
       = Inr (take NonceSize [1, 2, 3, 4, 5, 6, 7, 8, 9, 10, 11, 12, 13] @ sealed)"
    "decryptData sample_library default_config
       (take NonceSize [1, 2, 3, 4, 5, 6, 7, 8, 9, 10, 11, 12, 13] @ sealed) = Inr [104, 105]"
    by blast
  then show ?thesis
    by (simp add: sample_encrypt)
qed

section \<open>Orchestrator\<close>

text \<open>
  The path of \<open>VerifyVideo\<close> on which both analyses are received in time and the subject
  is found live.
\<close>

lemma VerifyVideo_live:
  assumes "frameWait run = FramesArrive"
    and "joinWait run = LivenessThenVector \<or> joinWait run = VectorThenLiveness"
    and "extractFramesFromVideo (image_Decode lib) (VideoData req) = Inr (first_frame # others)"
    and "detectLiveness (config s) (first_frame # others) = Inr lr"
    and "IsLive lr"
    and "generateFaceVector (faceRecognizer s) first_frame = Inr v"
  shows "VerifyVideo lib s run req =
     (\<lparr>VerificationID = ''ver_'' @ fmt_d (idTime run), ResultUserID = UserID req,
       Verified = (if UserID req \<noteq> []
                   then (case checkForDuplicates (faceVectors s) (UserID req) v of
                           Inl err \<Rightarrow> False
                         | Inr confidence \<Rightarrow> confidence \<ge> SimilarityThreshold (config s))
                   else True),
       Confidence = (if UserID req \<noteq> []
                     then (case checkForDuplicates (faceVectors s) (UserID req) v of
                             Inl err \<Rightarrow> 0
                           | Inr confidence \<Rightarrow> confidence)
                     else 1),
       LivenessScore = Score lr, ProcessingTime = elapsed run,
       Timestamp = startTime run, Error = NoErrorText\<rparr>, None)"
  using assms by (auto simp: VerifyVideo_def Let_def split: sum.splits)

lemma VerifyVideo_verified:
  assumes "VerifyVideo lib s run req = (result, None)"
    and "Verified result"
    and "UserID req \<noteq> []"
  shows "\<exists>first_frame others lr v c.
           extractFramesFromVideo (image_Decode lib) (VideoData req) = Inr (first_frame # others) \<and>
           detectLiveness (config s) (first_frame # others) = Inr lr \<and> IsLive lr \<and>
           generateFaceVector (faceRecognizer s) first_frame = Inr v \<and>
           checkForDuplicates (faceVectors s) (UserID req) v = Inr c \<and>
           SimilarityThreshold (config s) \<le> c"
proof -
  from assms(1) obtain frames
    where fr: "extractFramesFromVideo (image_Decode lib) (VideoData req) = Inr frames"
      and ne: "frames \<noteq> []"
    by (auto simp: VerifyVideo_def Let_def split: frame_wait.splits sum.splits if_splits)
  then obtain first_frame others where fo: "frames = first_frame # others"
    by (cases frames) auto
  from assms fr fo show ?thesis
    by (auto simp: VerifyVideo_def Let_def
        split: frame_wait.splits sum.splits prod.splits option.splits if_splits
        dest!: select_loop_both)
qed

text \<open>The sample request: the sample picture is live at the default threshold.\<close>

lemma sample_extract:
  "extractFramesFromVideo (image_Decode sample_library) sample_video = Inr sample_frames"
  by (simp add: extractFrames_eq sample_library_def sample_video_def sample_frames_def)

lemma sample_frames_first: "sample_frames ! 0 = sample_image"
  by (simp add: sample_frames_def)

lemma sample_frames_length: "length sample_frames = 5"
  by (simp add: sample_frames_def)

lemma sample_vector:
  "generateFaceVector (faceRecognizer (sample_service vectors)) sample_image = Inr [3 / 5, 4 / 5]"
  by (simp add: generateFaceVector_def sample_service_def sample_recognizer_def Let_def)

lemma sample_live:
  "detectLiveness (config (sample_service vectors)) sample_frames =
     Inr \<lparr>IsLive = True, LivenessConfidence = 47 / 50,
          Method = ''motion_texture_analysis'', Score = 47 / 50\<rparr>"
  by (simp add: sample_liveness sample_service_def default_config_def)

lemma sample_VerifyVideo:
  "VerifyVideo sample_library (sample_service vectors) sample_run
      \<lparr>VideoData = sample_video, UserID = userID, SessionID = sessionID\<rparr> =
     (\<lparr>VerificationID = ''ver_'' @ fmt_d 1762128000000000100, ResultUserID = userID,
       Verified = (if userID \<noteq> []
                   then (case checkForDuplicates vectors userID [3 / 5, 4 / 5] of
                           Inl err \<Rightarrow> False
                         | Inr confidence \<Rightarrow> confidence \<ge> 3 / 4)
                   else True),
       Confidence = (if userID \<noteq> []
                     then (case checkForDuplicates vectors userID [3 / 5, 4 / 5] of
                             Inl err \<Rightarrow> 0
                           | Inr confidence \<Rightarrow> confidence)
                     else 1),
       LivenessScore = 47 / 50, ProcessingTime = 1 / 2,
       Timestamp = 1762128000000000000, Error = NoErrorText\<rparr>, None)"
  by (simp add: VerifyVideo_def Let_def sample_run_def sample_extract sample_live sample_vector
      sample_frames_first sample_frames_length)
     (simp add: sample_service_def default_config_def split: sum.splits)

text \<open>
  Every result returned without an error has a confidence that is not negative and a
  liveness score between 0 and 1.
\<close>

lemma VerifyVideo_lower_ranges:
  "VerifyVideo lib s run req = (result, None) \<Longrightarrow>
     0 \<le> Confidence result \<and> 0 \<le> LivenessScore result \<and> LivenessScore result \<le> 1"
  by (auto simp: VerifyVideo_def Let_def
      split: frame_wait.splits sum.splits prod.splits option.splits if_splits
      dest!: select_loop_both dest: detectLiveness_range checkForDuplicates_nonneg)

text \<open>
  An identity that is claimed but has no stored embedding gets confidence 0, and is
  verified only under a threshold that is not positive.
\<close>

lemma VerifyVideo_unenrolled:
  assumes "VerifyVideo lib s run req = (result, None)"
    and "UserID req \<noteq> []"
    and "faceVectors s (UserID req) = None"
  shows "Confidence result = 0 \<and> (Verified result \<longrightarrow> SimilarityThreshold (config s) \<le> 0)"
  using assms
  by (auto simp: VerifyVideo_def Let_def checkForDuplicates_def
      split: frame_wait.splits sum.splits prod.splits option.splits if_splits)

text \<open>
  C1. The claim does not hold of the code. The request below claims the identity
  \<open>test-user-123\<close>, of which the store holds nothing, with a video that passes the
  liveness check at the default threshold: \<open>VerifyVideo\<close> returns verified = false and
  confidence = 0. The same video with no identity claimed is verified with confidence 1.
\<close>

theorem VerifyVideo_unenrolled_identity_rejected:
  "VerifyVideo sample_library (sample_service Map.empty) sample_run
      \<lparr>VideoData = sample_video, UserID = ''test-user-123'', SessionID = ''test-session-456''\<rparr> =
     (\<lparr>VerificationID = ''ver_'' @ fmt_d 1762128000000000100, ResultUserID = ''test-user-123'',
       Verified = False, Confidence = 0, LivenessScore = 47 / 50, ProcessingTime = 1 / 2,
       Timestamp = 1762128000000000000, Error = NoErrorText\<rparr>, None) \<and>
   VerifyVideo sample_library (sample_service Map.empty) sample_run
      \<lparr>VideoData = sample_video, UserID = [], SessionID = ''test-session-123''\<rparr> =
     (\<lparr>VerificationID = ''ver_'' @ fmt_d 1762128000000000100, ResultUserID = [],
       Verified = True, Confidence = 1, LivenessScore = 47 / 50, ProcessingTime = 1 / 2,
       Timestamp = 1762128000000000000, Error = NoErrorText\<rparr>, None)"
  by (simp add: sample_VerifyVideo checkForDuplicates_def)

text \<open>
  With a positive similarity threshold, \<open>RegisterFace\<close> fails for every identity that
  is not yet enrolled, whatever the video and the run, and leaves the store as it was.
\<close>

lemma RegisterFace_unenrolled:
  assumes id: "userID \<noteq> []"
    and none: "faceVectors s userID = None"
    and thr: "0 < SimilarityThreshold (config s)"
  shows "\<exists>err. RegisterFace lib s run userID videoData = (s, Some err)"
proof -
  let ?req = "\<lparr>VideoData = videoData, UserID = userID, SessionID = []\<rparr>"
  obtain result e where v: "VerifyVideo lib s run ?req = (result, e)"
    by (cases "VerifyVideo lib s run ?req") auto
  show ?thesis
  proof (cases e)
    case (Some err)
    with v show ?thesis by (simp add: RegisterFace_def)
  next
    case None
    with v VerifyVideo_unenrolled [of lib s run ?req result] id none thr
    have "\<not> Verified result" by simp
    with v None show ?thesis by (simp add: RegisterFace_def)
  qed
qed

lemma checkForDuplicates_append:
  assumes "checkForDuplicates stored userID v = Inr c"
  shows "\<exists>c'. checkForDuplicates
            (stored(userID \<mapsto> (case stored userID of None \<Rightarrow> [] | Some vs \<Rightarrow> vs) @ [x]))
            userID v = Inr c' \<and> c \<le> c'"
proof -
  have "fold max cs (0 :: real) \<le> max d (fold max cs 0)" for cs d
    by simp
  moreover have "(0 :: real) \<le> fold max cs 0" for cs
    by (rule fold_max_ge)
  ultimately show ?thesis
    using assms
    by (auto simp: checkForDuplicates_def similarity_loop_fold split: option.splits if_splits)
qed

text \<open>
  The round trip where a registration does succeed: verifying the same identity with the
  same video afterwards, when both analyses are received in time, gives verified = true
  and a confidence that reaches the threshold.
\<close>

lemma register_then_verify:
  assumes reg: "RegisterFace lib s run userID videoData = (s', None)"
    and id: "userID \<noteq> []"
    and fw: "frameWait run' = FramesArrive"
    and jw: "joinWait run' = LivenessThenVector \<or> joinWait run' = VectorThenLiveness"
    and req: "VideoData req = videoData" "UserID req = userID"
  shows "\<exists>result. VerifyVideo lib s' run' req = (result, None) \<and> Verified result \<and>
           SimilarityThreshold (config s') \<le> Confidence result"
proof -
  let ?req = "\<lparr>VideoData = videoData, UserID = userID, SessionID = []\<rparr>"
  from reg obtain result
    where v: "VerifyVideo lib s run ?req = (result, None)" and ok: "Verified result"
    by (auto simp: RegisterFace_def Let_def split: prod.splits option.splits if_splits)
  from VerifyVideo_verified [OF v ok] id
  obtain first_frame others lr vec c where
    fr: "extractFramesFromVideo (image_Decode lib) videoData = Inr (first_frame # others)"
    and lv: "detectLiveness (config s) (first_frame # others) = Inr lr" "IsLive lr"
    and gv: "generateFaceVector (faceRecognizer s) first_frame = Inr vec"
    and cd: "checkForDuplicates (faceVectors s) userID vec = Inr c"
    and th: "SimilarityThreshold (config s) \<le> c"
    by auto
  define x where
    "x = \<lparr>VectorUserID = userID, Vector = vec, CreatedAt = createdAt run, Version = ''1.0''\<rparr>"
  from reg v ok fr gv have s': "s' = s\<lparr>faceVectors := (faceVectors s)(userID \<mapsto>
      (case faceVectors s userID of None \<Rightarrow> [] | Some vs \<Rightarrow> vs) @ [x])\<rparr>"
    by (auto simp: RegisterFace_def Let_def x_def split: if_splits)
  from checkForDuplicates_append [OF cd, of x] obtain c' where
    cd': "checkForDuplicates (faceVectors s') userID vec = Inr c'" and le: "c \<le> c'"
    by (auto simp: s')
  have "VerifyVideo lib s' run' req =
     (\<lparr>VerificationID = ''ver_'' @ fmt_d (idTime run'), ResultUserID = UserID req,
       Verified = (SimilarityThreshold (config s') \<le> c'), Confidence = c',
       LivenessScore = Score lr, ProcessingTime = elapsed run',
       Timestamp = startTime run', Error = NoErrorText\<rparr>, None)"
    using VerifyVideo_live [of run' lib req first_frame others s' lr vec]
      fw jw fr lv gv cd' id req
    by (simp add: s')
  moreover have "SimilarityThreshold (config s') \<le> c'"
    using th le by (simp add: s')
  ultimately show ?thesis by simp
qed

text \<open>
  Such a registration exists: with one embedding of the identity already stored, the
  sample video registers a second one, and the verification that follows succeeds.
\<close>

lemma sample_save:
  "saveFaceVectors sample_library (sample_service vectors) sample_run = None"
proof -
  have r: "NonceSize \<le> length (entropy sample_run)"
    by (simp add: NonceSize_def sample_run_def)
  have c: "config (sample_service vectors) = default_config"
    by (simp add: sample_service_def)
  have j: "json_Marshal sample_library (faceVectors (sample_service vectors)) = Inr []"
    by (simp add: sample_library_def)
  have w: "os_WriteFile sample_library name bytes = None" for name bytes
    by (simp add: sample_library_def)
  show ?thesis
    by (simp add: saveFaceVectors_def c j w
        encryptData_ok [OF sample_key sample_key_length r])
qed

lemma sample_register:
  "RegisterFace sample_library (sample_service (Map.empty(''alice'' \<mapsto> [enrolled_vector])))
      sample_run ''alice'' sample_video =
     (sample_service (Map.empty(''alice'' \<mapsto>
        [enrolled_vector,
         \<lparr>VectorUserID = ''alice'', Vector = [3 / 5, 4 / 5], CreatedAt = 1762128000500000000,
          Version = ''1.0''\<rparr>])), None)"
proof -
  have c: "checkForDuplicates (Map.empty(''alice'' \<mapsto> [enrolled_vector])) ''alice'' [3 / 5, 4 / 5]
             = Inr (24 / 25)"
    by (simp add: checkForDuplicates_def cos_enrolled)
  have u: "(sample_service vectors)\<lparr>faceVectors := vectors'\<rparr> = sample_service vectors'"
    for vectors vectors'
    by (simp add: sample_service_def)
  have f: "faceVectors (sample_service vectors) = vectors" for vectors
    by (simp add: sample_service_def)
  have e: "extractFramesFromVideo (image_Decode sample_library) sample_video =
             Inr (sample_image # [frameCopy sample_image 1, frameCopy sample_image 2,
                    frameCopy sample_image 3, frameCopy sample_image 4])"
    by (simp add: sample_extract sample_frames_def)
  have t: "createdAt sample_run = 1762128000500000000"
    by (simp add: sample_run_def)
  show ?thesis
    by (simp add: RegisterFace_def sample_VerifyVideo c e sample_vector Let_def f u t sample_save)
qed

lemma sample_round_trip:
  "\<exists>result. VerifyVideo sample_library
       (sample_service (Map.empty(''alice'' \<mapsto>
          [enrolled_vector,
           \<lparr>VectorUserID = ''alice'', Vector = [3 / 5, 4 / 5], CreatedAt = 1762128000500000000,
            Version = ''1.0''\<rparr>])))
       sample_run \<lparr>VideoData = sample_video, UserID = ''alice'', SessionID = ''s2''\<rparr>
     = (result, None) \<and> Verified result \<and> 3 / 4 \<le> Confidence result"
  using register_then_verify [OF sample_register, of sample_run
      "\<lparr>VideoData = sample_video, UserID = ''alice'', SessionID = ''s2''\<rparr>"]
  by (simp add: sample_run_def sample_service_def default_config_def)

text \<open>
  C2. The claim does not hold of the code: registering an identity that is not yet
  enrolled fails. On the empty store, with the default similarity threshold and a video
  that passes the liveness check, \<open>RegisterFace\<close> returns the error "face verification
  failed: confidence 0.00" and stores nothing, so no verification of that identity can
  follow a successful registration.
\<close>

theorem RegisterFace_first_enrollment_fails:
  "RegisterFace sample_library (sample_service Map.empty) sample_run ''integration-test-user''
      sample_video =
     (sample_service Map.empty, Some (ErrFaceVerificationFailed 0))"
  by (simp add: RegisterFace_def sample_VerifyVideo checkForDuplicates_def)

section \<open>API gateway\<close>

text \<open>
  C8, as amended. \<open>validateVideoFile\<close> accepts a file exactly when its size is at least
  1024 bytes and at most 52428800 bytes, both bounds included, and its content type is in
  the allow-list. A file of 52428801 bytes, or of fewer than 1024 bytes, is refused, and
  the handler then answers 400 with the code \<open>INVALID_VIDEO_FILE\<close> whatever the service
  would do: the file is not read and the service is not called.
\<close>

theorem validateVideoFile_inclusive:
  assumes "File form ''video'' = file # others"
  shows "(validateVideoFile file = None \<longleftrightarrow>
            1024 \<le> Size file \<and> Size file \<le> 52428800 \<and> ContentType file \<in> set validTypes) \<and>
         (Size file = 52428801 \<or> Size file < 1024 \<longrightarrow>
            (\<exists>err. validateVideoFile file = Some err \<and>
               handler_VerifyVideo verify uuid inTime (Some form) =
                 ErrorResponse 400 (Inr err) ''INVALID_VIDEO_FILE'' None))"
  using assms
  by (auto simp: validateVideoFile_def handler_VerifyVideo_def Let_def list_ex_iff)

theorem validateVideoFile_inclusive_witness:
  "File (upload oversized_file) ''video'' = [oversized_file] \<and>
   validateVideoFile oversized_file = Some (ErrVideoTooLarge 52428801) \<and>
   (\<forall>verify uuid inTime.
      handler_VerifyVideo verify uuid inTime (Some (upload oversized_file)) =
        ErrorResponse 400 (Inr (ErrVideoTooLarge 52428801)) ''INVALID_VIDEO_FILE'' None)"
proof -
  have f: "File (upload oversized_file) ''video'' = oversized_file # []"
    by (simp add: upload_def)
  have v: "validateVideoFile oversized_file = Some (ErrVideoTooLarge 52428801)"
    by (simp add: validateVideoFile_def oversized_file_def)
  have s: "Size oversized_file = 52428801"
    by (simp add: oversized_file_def)
  show ?thesis
    using validateVideoFile_inclusive [OF f] f v s by auto
qed

text \<open>
  The claim as stated fails at the lower bound: a file of exactly 1024 bytes, which is
  not strictly more than 1KB, is accepted.
\<close>

theorem validateVideoFile_boundary_counterexample:
  "validateVideoFile smallest_file = None \<and> \<not> (1024 < Size smallest_file)"
  by (simp add: validateVideoFile_def smallest_file_def validTypes_def)

end
